theory Spec2Isabelle
  imports Complex_Main "HOL-Library.Word" "HOL-Library.Code_Target_Numeral"
begin

section \<open>JavaScript strings and errors\<close>

text \<open>
  A JavaScript string is a sequence of UTF-16 code units; \<open>length\<close> counts code units,
  as \<^verbatim>\<open>String.prototype.length\<close> does. ASCII literals are written with \<open>js\<close>,
  other literals as their code units.
\<close>

type_synonym jsstring = "16 word list"

definition js :: "string \<Rightarrow> jsstring" where
  "js s = map (\<lambda>c. of_nat (of_char c)) s"

text \<open>The exceptions the modelled code can raise.\<close>

datatype js_error = TypeError | RangeError

section \<open>routes/uploadAndPublish.js: the stored job rows\<close>

text \<open>
  The rows the store returns after the insert (\<^verbatim>\<open>importResult.jobs\<close>): every column read
  by the route is a string or \<^verbatim>\<open>null\<close> (\<open>None\<close>); \<open>job_id\<close> is the column \<^verbatim>\<open>id\<close>.
\<close>

record job =
  job_id :: "nat option"
  job_title :: "jsstring option"
  account_number :: "jsstring option"
  company_name :: "jsstring option"
  phone :: "jsstring option"
  email :: "jsstring option"
  address :: "jsstring option"
  conditions :: "jsstring option"
  responsibilities :: "jsstring option"
  requirements :: "jsstring option"
  schedule :: "jsstring option"
  salary :: "jsstring option"

subsection \<open>groupJobsByVacancyName\<close>

text \<open>
  \<^verbatim>\<open>stringSimilarity.compareTwoStrings\<close> belongs to the package string-similarity and
  \<^verbatim>\<open>toLowerCase\<close> to the runtime: both are parameters (\<open>sim\<close>, \<open>lower\<close>). \<open>sim\<close> gives
  the exact value of the returned double; no double lies between \<open>2/5\<close> and the double
  written \<^verbatim>\<open>0.4\<close>, so \<^verbatim>\<open>similarity >= threshold\<close> is \<open>threshold \<le> sim a b\<close>.
\<close>

definition threshold :: rat where
  "threshold = 4 / 10"

text \<open>\<^verbatim>\<open>x.toLowerCase()\<close> for a column value \<open>x\<close>: a method call on \<^verbatim>\<open>null\<close> throws.\<close>

definition toLowerCase :: "(jsstring \<Rightarrow> jsstring) \<Rightarrow> jsstring option \<Rightarrow> js_error + jsstring" where
  "toLowerCase lower t = (case t of None \<Rightarrow> Inl TypeError | Some s \<Rightarrow> Inr (lower s))"

text \<open>
  The inner loop \<^verbatim>\<open>for (const group of groups)\<close> with its \<^verbatim>\<open>break\<close>: the groups after the
  loop and the flag \<^verbatim>\<open>foundGroup\<close>. The arguments of \<^verbatim>\<open>compareTwoStrings\<close> are evaluated
  left to right; \<^verbatim>\<open>group[0]\<close> of an empty group is \<^verbatim>\<open>undefined\<close>, whose property read throws.
\<close>

fun scanGroups ::
  "(jsstring \<Rightarrow> jsstring \<Rightarrow> rat) \<Rightarrow> (jsstring \<Rightarrow> jsstring) \<Rightarrow> job \<Rightarrow> job list list
    \<Rightarrow> js_error + (job list list \<times> bool)" where
  "scanGroups sim lower j [] = Inr ([], False)"
| "scanGroups sim lower j (grp # rest) =
     (case toLowerCase lower (job_title j) of
        Inl e \<Rightarrow> Inl e
      | Inr a \<Rightarrow>
          (case grp of
             [] \<Rightarrow> Inl TypeError
           | g0 # _ \<Rightarrow>
               (case toLowerCase lower (job_title g0) of
                  Inl e \<Rightarrow> Inl e
                | Inr b \<Rightarrow>
                    if threshold \<le> sim a b then Inr ((grp @ [j]) # rest, True)
                    else (case scanGroups sim lower j rest of
                            Inl e \<Rightarrow> Inl e
                          | Inr (rest', found) \<Rightarrow> Inr (grp # rest', found)))))"

text \<open>The body of \<^verbatim>\<open>jobs.forEach\<close>: the scan, then \<^verbatim>\<open>if (!foundGroup) groups.push([job])\<close>.\<close>

definition placeJob ::
  "(jsstring \<Rightarrow> jsstring \<Rightarrow> rat) \<Rightarrow> (jsstring \<Rightarrow> jsstring) \<Rightarrow> job list list \<Rightarrow> job
    \<Rightarrow> js_error + job list list" where
  "placeJob sim lower groups j =
     (case scanGroups sim lower j groups of
        Inl e \<Rightarrow> Inl e
      | Inr (gs, found) \<Rightarrow> Inr (if found then gs else gs @ [[j]]))"

fun forEachJob ::
  "(jsstring \<Rightarrow> jsstring \<Rightarrow> rat) \<Rightarrow> (jsstring \<Rightarrow> jsstring) \<Rightarrow> job list list \<Rightarrow> job list
    \<Rightarrow> js_error + job list list" where
  "forEachJob sim lower groups [] = Inr groups"
| "forEachJob sim lower groups (j # rest) =
     (case placeJob sim lower groups j of
        Inl e \<Rightarrow> Inl e
      | Inr gs \<Rightarrow> forEachJob sim lower gs rest)"

definition groupJobsByVacancyName ::
  "(jsstring \<Rightarrow> jsstring \<Rightarrow> rat) \<Rightarrow> (jsstring \<Rightarrow> jsstring) \<Rightarrow> job list
    \<Rightarrow> js_error + job list list" where
  "groupJobsByVacancyName sim lower jobs = forEachJob sim lower [] jobs"

subsection \<open>The clustering rule in the specification's words\<close>

text \<open>
  A job is similar to a cluster when the similarity of its lower-cased title and the
  lower-cased title of the cluster's first member is at least 0.4.
\<close>

definition similar_to_anchor ::
  "(jsstring \<Rightarrow> jsstring \<Rightarrow> rat) \<Rightarrow> (jsstring \<Rightarrow> jsstring) \<Rightarrow> job \<Rightarrow> job list \<Rightarrow> bool" where
  "similar_to_anchor sim lower j g =
     (case (job_title j, g) of
        (Some a, g0 # _) \<Rightarrow>
          (case job_title g0 of Some b \<Rightarrow> threshold \<le> sim (lower a) (lower b) | None \<Rightarrow> False)
      | _ \<Rightarrow> False)"

text \<open>
  The job joins the first cluster it is similar to (the clusters before it and after it
  are untouched); with no such cluster it becomes a singleton after all of them.
\<close>

definition join_first_match ::
  "(jsstring \<Rightarrow> jsstring \<Rightarrow> rat) \<Rightarrow> (jsstring \<Rightarrow> jsstring) \<Rightarrow> job list list \<Rightarrow> job
    \<Rightarrow> job list list" where
  "join_first_match sim lower gs j =
     takeWhile (\<lambda>g. \<not> similar_to_anchor sim lower j g) gs @
     (case dropWhile (\<lambda>g. \<not> similar_to_anchor sim lower j g) gs of
        [] \<Rightarrow> [[j]]
      | g # rest \<Rightarrow> (g @ [j]) # rest)"

definition cluster_in_order ::
  "(jsstring \<Rightarrow> jsstring \<Rightarrow> rat) \<Rightarrow> (jsstring \<Rightarrow> jsstring) \<Rightarrow> job list \<Rightarrow> job list list" where
  "cluster_in_order sim lower jobs = foldl (join_first_match sim lower) [] jobs"

text \<open>Every cluster has a first member, and that member has a title.\<close>

definition anchored :: "job list list \<Rightarrow> bool" where
  "anchored gs = list_all (\<lambda>g. case g of [] \<Rightarrow> False | g0 # _ \<Rightarrow> job_title g0 \<noteq> None) gs"

subsection \<open>createPostMessage\<close>

text \<open>
  The options the route builds from the request body. \<open>salaryThreshold\<close> is
  \<^verbatim>\<open>Number(salaryThreshold) || 0\<close>: a finite number, taken exactly. Salaries are compared as
  exact integers (the doubles of \<^verbatim>\<open>parseInt\<close> are exact below \<open>2^53\<close>).
\<close>

record options =
  hideCompanyName :: bool
  salaryThreshold :: rat
  includeConditions :: bool
  includeResponsibilities :: bool
  includeRequirements :: bool
  hideAddress :: bool
  hideEmail :: bool

text \<open>
  The Cyrillic literals of the source, as UTF-16 code units: the placeholder for a
  negotiable salary (``Po dogovorennosti''), the em dash, the labels of the lines, the
  title prefix (a pushpin emoji as a surrogate pair, then ``Vakansiya '') and the footer
  with its two hashtags.
\<close>

definition lit_negotiable :: jsstring where
  "lit_negotiable = [0x41F, 0x43E, 0x20, 0x434, 0x43E, 0x433, 0x43E, 0x432, 0x43E, 0x440,
     0x435, 0x43D, 0x43D, 0x43E, 0x441, 0x442, 0x438]"

definition lit_dash :: jsstring where
  "lit_dash = [0x2014]"

definition lit_company :: jsstring where
  "lit_company = [0x41A, 0x43E, 0x43C, 0x43F, 0x430, 0x43D, 0x438, 0x44F, 0x3A, 0x20]"

definition lit_contacts :: jsstring where
  "lit_contacts = [0x41A, 0x43E, 0x43D, 0x442, 0x430, 0x43A, 0x442, 0x44B, 0x3A, 0x20]"

definition lit_address :: jsstring where
  "lit_address = [0x410, 0x434, 0x440, 0x435, 0x441, 0x3A, 0x20]"

definition lit_title_prefix :: jsstring where
  "lit_title_prefix = [0xD83D, 0xDCCC, 0x20, 0x412, 0x430, 0x43A, 0x430, 0x43D, 0x441, 0x438,
     0x44F, 0x20]"

definition lit_default_title :: jsstring where
  "lit_default_title = [0x412, 0x430, 0x43A, 0x430, 0x43D, 0x441, 0x438, 0x44F]"

definition lit_salary :: jsstring where
  "lit_salary = [0x417, 0x430, 0x440, 0x43F, 0x43B, 0x430, 0x442, 0x430, 0x3A, 0x20]"

definition lit_schedule :: jsstring where
  "lit_schedule = [0x413, 0x440, 0x430, 0x444, 0x438, 0x43A, 0x3A, 0x20]"

definition lit_responsibilities :: jsstring where
  "lit_responsibilities = [0x41E, 0x431, 0x44F, 0x437, 0x430, 0x43D, 0x43D, 0x43E, 0x441, 0x442,
     0x438, 0x3A, 0x20]"

definition lit_conditions :: jsstring where
  "lit_conditions = [0x423, 0x441, 0x43B, 0x43E, 0x432, 0x438, 0x44F, 0x3A, 0x20]"

definition lit_requirements :: jsstring where
  "lit_requirements = [0x422, 0x440, 0x435, 0x431, 0x43E, 0x432, 0x430, 0x43D, 0x438, 0x44F,
     0x3A, 0x20]"

definition lit_separator :: jsstring where
  "lit_separator = [0xA, 0x2D, 0x2D, 0x2D, 0xA, 0xA]"

definition lit_footer :: jsstring where
  "lit_footer = [0xA, 0x23, 0x440, 0x430, 0x431, 0x43E, 0x442, 0x430, 0x20, 0x23, 0x432, 0x430,
     0x43A, 0x430, 0x43D, 0x441, 0x438, 0x44F]"

definition newline :: jsstring where
  "newline = [0xA]"

text \<open>A column is truthy when it is a non-empty string; \<open>or_else x d\<close> is \<^verbatim>\<open>x || d\<close>.\<close>

definition truthy_col :: "jsstring option \<Rightarrow> bool" where
  "truthy_col x = (case x of None \<Rightarrow> False | Some s \<Rightarrow> s \<noteq> [])"

definition or_else :: "jsstring option \<Rightarrow> jsstring \<Rightarrow> jsstring" where
  "or_else x d = (case x of None \<Rightarrow> d | Some s \<Rightarrow> if s = [] then d else s)"

text \<open>\<^verbatim>\<open>Array.prototype.join\<close> on an array of strings.\<close>

fun joinWith :: "jsstring \<Rightarrow> jsstring list \<Rightarrow> jsstring" where
  "joinWith sep [] = []"
| "joinWith sep [x] = x"
| "joinWith sep (x # y # ys) = x @ sep @ joinWith sep (y # ys)"

text \<open>The decimal digits of a non-negative integer, as a template literal prints it.\<close>

fun decimal :: "nat \<Rightarrow> jsstring" where
  "decimal n = (if n < 10 then [of_nat (48 + n)] else decimal (n div 10) @ [of_nat (48 + n mod 10)])"

declare decimal.simps [simp del]

text \<open>
  \<^verbatim>\<open>job.salary.replace(/\D/g, '')\<close> keeps the code units \<^verbatim>\<open>0\<close> to \<^verbatim>\<open>9\<close>; \<^verbatim>\<open>parseInt(digits, 10)\<close>
  of a non-empty string of such digits is the integer they write.
\<close>

definition isDigit :: "16 word \<Rightarrow> bool" where
  "isDigit c = (0x30 \<le> c \<and> c \<le> 0x39)"

definition removeNonDigits :: "jsstring \<Rightarrow> jsstring" where
  "removeNonDigits s = filter isDigit s"

definition parseDigits :: "jsstring \<Rightarrow> nat" where
  "parseDigits ds = foldl (\<lambda>n c. 10 * n + (unat c - 48)) 0 ds"

definition salaryNum :: "job \<Rightarrow> nat" where
  "salaryNum j =
     (case salary j of
        None \<Rightarrow> 0
      | Some s \<Rightarrow>
          if s = [] then 0
          else (let digits = removeNonDigits s in if digits = [] then 0 else parseDigits digits))"

definition salaryText :: "options \<Rightarrow> job \<Rightarrow> jsstring" where
  "salaryText opts j =
     (if salaryNum j \<noteq> 0 \<and> of_nat (salaryNum j) < salaryThreshold opts then lit_negotiable
      else or_else (salary j) lit_dash)"

text \<open>A line \<^verbatim>\<open>label + value + '\n'\<close> that is written only for a truthy column.\<close>

definition optional_line :: "jsstring \<Rightarrow> jsstring option \<Rightarrow> jsstring" where
  "optional_line label x = (if truthy_col x then label @ or_else x [] @ newline else [])"

definition contactsArr :: "options \<Rightarrow> job \<Rightarrow> jsstring list" where
  "contactsArr opts j =
     (if truthy_col (phone j) then [or_else (phone j) []] else []) @
     (if \<not> hideEmail opts \<and> truthy_col (email j) then [or_else (email j) []] else [])"

text \<open>
  What one round of \<^verbatim>\<open>jobsGroup.forEach((job, idx) => ...)\<close> appends to \<^verbatim>\<open>message\<close>; \<open>n\<close> is
  \<^verbatim>\<open>jobsGroup.length\<close>.
\<close>

definition jobBlock :: "options \<Rightarrow> nat \<Rightarrow> nat \<Rightarrow> job \<Rightarrow> jsstring" where
  "jobBlock opts n idx j =
     lit_title_prefix @ (if 1 < n then decimal (idx + 1) else []) @ js '': '' @
       or_else (job_title j) lit_default_title @ newline @
     (if hideCompanyName opts then [] else lit_company @ or_else (company_name j) lit_dash @ newline) @
     lit_salary @ salaryText opts j @ newline @
     optional_line lit_schedule (schedule j) @
     (if contactsArr opts j \<noteq> [] then lit_contacts @ joinWith (js '', '') (contactsArr opts j)
      else lit_contacts @ lit_dash) @ newline @
     (if includeResponsibilities opts then optional_line lit_responsibilities (responsibilities j) else []) @
     (if includeConditions opts then optional_line lit_conditions (conditions j) else []) @
     (if includeRequirements opts then optional_line lit_requirements (requirements j) else []) @
     (if hideAddress opts then [] else optional_line lit_address (address j)) @
     (if idx < n - 1 then lit_separator else [])"

definition createPostMessage :: "job list \<Rightarrow> options \<Rightarrow> jsstring" where
  "createPostMessage jobsGroup opts =
     foldl (\<lambda>message (idx, j). message @ jobBlock opts (length jobsGroup) idx j) []
       (enumerate 0 jobsGroup) @ lit_footer"

subsection \<open>postToVkWall and the publish loop of the route\<close>

text \<open>
  The transport is outside the repository: \<^verbatim>\<open>axios.post\<close> either rejects with an error that
  has a message, or resolves with the body the API sent. In the body \<open>response\<close> is the
  \<^verbatim>\<open>post_id\<close> of \<^verbatim>\<open>res.data.response\<close> when that is present, \<open>error_msg\<close> is
  \<^verbatim>\<open>res.data.error?.error_msg\<close>. The transport is a function of the number of the call and
  of the request (owner id, message, access token), so that calls may differ.
\<close>

record vk_body =
  response :: "nat option"
  error_msg :: "jsstring option"

datatype axios_outcome = Rejected jsstring | Resolved vk_body

text \<open>\<^verbatim>\<open>{success: true, postId, link}\<close> and \<^verbatim>\<open>{success: false, error}\<close>.\<close>

datatype vk_result = Posted nat jsstring | Failed jsstring

type_synonym transport = "nat \<Rightarrow> jsstring \<times> jsstring \<times> jsstring \<Rightarrow> axios_outcome"

definition lit_unknown_error :: jsstring where
  "lit_unknown_error = js ''Unknown VK API error''"

text \<open>
  The body of the \<^verbatim>\<open>try\<close>: \<open>Inl\<close> is the message of the error thrown in it (the rejection
  of the awaited call).
\<close>

definition postToVkWall_try ::
  "transport \<Rightarrow> nat \<Rightarrow> jsstring \<Rightarrow> jsstring \<Rightarrow> jsstring \<Rightarrow> jsstring + vk_result" where
  "postToVkWall_try tr k message accessToken ownerId =
     (case tr k (ownerId, message, accessToken) of
        Rejected m \<Rightarrow> Inl m
      | Resolved d \<Rightarrow>
          (case response d of
             Some post_id \<Rightarrow>
               Inr (Posted post_id (js ''https://vk.com/wall'' @ ownerId @ js ''_'' @ decimal post_id))
           | None \<Rightarrow> Inr (Failed (or_else (error_msg d) lit_unknown_error))))"

text \<open>The \<^verbatim>\<open>catch\<close> turns every error of the \<^verbatim>\<open>try\<close> into a failed result.\<close>

definition postToVkWall ::
  "transport \<Rightarrow> nat \<Rightarrow> jsstring \<Rightarrow> jsstring \<Rightarrow> jsstring \<Rightarrow> vk_result" where
  "postToVkWall tr k message accessToken ownerId =
     (case postToVkWall_try tr k message accessToken ownerId of
        Inl m \<Rightarrow> Failed m
      | Inr r \<Rightarrow> r)"

text \<open>
  The state of the loop over \<^verbatim>\<open>groupedJobs\<close>: the array \<^verbatim>\<open>results\<close> (the titles of the group
  and the spread result) and the updates \<^verbatim>\<open>markJobAsPublished\<close> sent to the store (job id
  and link; an error of the store is only logged there).
\<close>

record publish_state =
  results :: "(jsstring option list \<times> vk_result) list"
  marked :: "(nat \<times> jsstring) list"

definition markGroup :: "job list \<Rightarrow> vk_result \<Rightarrow> (nat \<times> jsstring) list" where
  "markGroup grp r =
     (case r of
        Posted post_id link \<Rightarrow>
          concat (map (\<lambda>j. case job_id j of None \<Rightarrow> [] | Some n \<Rightarrow> if n = 0 then [] else [(n, link)]) grp)
      | Failed m \<Rightarrow> [])"

fun publishLoop ::
  "transport \<Rightarrow> jsstring \<Rightarrow> jsstring \<Rightarrow> options \<Rightarrow> nat \<Rightarrow> job list list \<Rightarrow> publish_state
    \<Rightarrow> publish_state" where
  "publishLoop tr accessToken ownerId opts k [] st = st"
| "publishLoop tr accessToken ownerId opts k (grp # rest) st =
     (let postMsg = createPostMessage grp opts;
          vkResult = postToVkWall tr k postMsg accessToken ownerId;
          st1 = st\<lparr>marked := marked st @ markGroup grp vkResult\<rparr>;
          st2 = st1\<lparr>results := results st1 @ [(map job_title grp, vkResult)]\<rparr>
      in publishLoop tr accessToken ownerId opts (Suc k) rest st2)"

section \<open>Parsed XML values\<close>

text \<open>
  What the XML parser (with \<^verbatim>\<open>explicitArray: false\<close>) builds: the text of an element is a
  string (the empty string for an empty element), an element with children or attributes
  is an object (its text, if any, under the key \<^verbatim>\<open>_\<close>), a repeated element is an array.
  The parser builds no number, no boolean and no \<^verbatim>\<open>null\<close>. A value that may be
  \<^verbatim>\<open>undefined\<close> or \<^verbatim>\<open>null\<close> is a \<open>jsval option\<close>, \<open>None\<close> being the absent value. The
  keys of an object are kept in insertion order, the order of \<^verbatim>\<open>for ... in\<close>.
\<close>

datatype jsval = Str jsstring | Obj "(jsstring \<times> jsval) list" | Arr "jsval list"

text \<open>\<^verbatim>\<open>Boolean(v)\<close>: only the absent value and the empty string are falsy.\<close>

definition truthy :: "jsval option \<Rightarrow> bool" where
  "truthy v = (case v of None \<Rightarrow> False | Some (Str s) \<Rightarrow> s \<noteq> [] | Some _ \<Rightarrow> True)"

text \<open>
  The property read \<^verbatim>\<open>v.key\<close> for the keys the source reads (tag names and \<^verbatim>\<open>_\<close>): none of
  them names a built-in property, so a string or an array has none of them.
\<close>

definition getProp :: "jsval \<Rightarrow> jsstring \<Rightarrow> jsval option" where
  "getProp v key = (case v of Obj ps \<Rightarrow> map_of ps key | _ \<Rightarrow> None)"

text \<open>
  \<^verbatim>\<open>String(v)\<close>, as template literals and \<^verbatim>\<open>join\<close> apply it: an ordinary object gives
  \<^verbatim>\<open>[object Object]\<close>, an array its elements joined by commas. \<^verbatim>\<open>join\<close> prints an absent
  element as the empty string.
\<close>

fun toStr :: "jsval \<Rightarrow> jsstring" where
  "toStr (Str s) = s"
| "toStr (Obj ps) = js ''[object Object]''"
| "toStr (Arr xs) = joinWith (js '','') (map toStr xs)"

definition toStrOpt :: "jsval option \<Rightarrow> jsstring" where
  "toStrOpt v = (case v of None \<Rightarrow> [] | Some x \<Rightarrow> toStr x)"

section \<open>utils/importJobsUtil.js: the field extractors\<close>

definition endsWith :: "jsstring \<Rightarrow> jsstring \<Rightarrow> bool" where
  "endsWith s suffix = (length suffix \<le> length s \<and> drop (length s - length suffix) s = suffix)"

text \<open>
  \<open>componentName\<close> is given in upper case: the four calls pass upper-case ASCII literals,
  which \<^verbatim>\<open>toUpperCase\<close> leaves as they are. \<^verbatim>\<open>for (const key in addressBlock)\<close> visits the
  keys of an object in order; the keys of a string or of an array are indices, and no
  index ends with a hyphen and a name.
\<close>

definition getAddressComponent :: "jsval option \<Rightarrow> jsstring \<Rightarrow> jsval option" where
  "getAddressComponent addressBlock componentName =
     (if \<not> truthy addressBlock then None
      else (case addressBlock of
              Some (Obj ps) \<Rightarrow>
                map_option snd (find (\<lambda>(key, v). endsWith key (js ''-'' @ componentName)) ps)
            | _ \<Rightarrow> None))"

definition extractAddress :: "jsval option \<Rightarrow> jsstring option" where
  "extractAddress addressBlock =
     (if \<not> truthy addressBlock then None
      else (let region = getAddressComponent addressBlock (js ''OBLAST'');
                city = getAddressComponent addressBlock (js ''GOROD'');
                street = getAddressComponent addressBlock (js ''ULICA'');
                dom = getAddressComponent addressBlock (js ''DOM'')
            in Some (joinWith (js '', '') (map toStrOpt (filter truthy [region, city, street, dom])))))"

text \<open>
  The address of a row: the block \<^verbatim>\<open>ADRESSORABOTI\<close>, then the blocks \<^verbatim>\<open>ADRESSORABOTI1\<close> to
  \<^verbatim>\<open>ADRESSORABOTI8\<close>, each extracted when it is truthy; the empty results are dropped and
  the others joined.
\<close>

definition numberedAddressKey :: "nat \<Rightarrow> jsstring" where
  "numberedAddressKey i = js ''ADRESSORABOTI'' @ decimal i"

definition addresses :: "jsval \<Rightarrow> jsstring option list" where
  "addresses row =
     (if truthy (getProp row (js ''ADRESSORABOTI''))
      then [extractAddress (getProp row (js ''ADRESSORABOTI''))] else []) @
     concat (map (\<lambda>i. if truthy (getProp row (numberedAddressKey i))
                       then [extractAddress (getProp row (numberedAddressKey i))] else [])
               [1..<9])"

definition combinedAddress :: "jsval \<Rightarrow> jsstring" where
  "combinedAddress row =
     joinWith (js ''; '') (map (\<lambda>a. or_else a []) (filter truthy_col (addresses row)))"

text \<open>
  \<^verbatim>\<open>typeof p === 'object'\<close> holds for objects and arrays. The result is the value the
  function returns: a string, or whatever stands under \<^verbatim>\<open>_\<close>.
\<close>

definition extractPhone :: "jsval option \<Rightarrow> jsval option" where
  "extractPhone phoneObj =
     (if \<not> truthy phoneObj then None
      else (let phones = (case phoneObj of Some v \<Rightarrow> getProp v (js ''TELEF_NOMER'') | None \<Rightarrow> None)
            in case phones of
                 Some (Arr ps) \<Rightarrow>
                   Some (Str (joinWith (js '', '')
                     (map (\<lambda>p. toStrOpt (case p of Str t \<Rightarrow> Some p | _ \<Rightarrow> getProp p (js ''_''))) ps)))
               | Some (Obj fs) \<Rightarrow>
                   if truthy (getProp (Obj fs) (js ''_'')) then getProp (Obj fs) (js ''_'') else None
               | Some (Str t) \<Rightarrow> Some (Str t)
               | None \<Rightarrow> None))"

text \<open>
  The schedule labels of the source (``smena: '', ``dni raboty: '', ``vremya raboty: '' in
  Cyrillic). In \<^verbatim>\<open>extractSchedule\<close> the branches for an array and for an object under a
  falsy \<^verbatim>\<open>GAFIK\<close> cannot be taken: an array and an object are truthy.
\<close>

definition lit_smena :: jsstring where
  "lit_smena = [0x441, 0x43C, 0x435, 0x43D, 0x430, 0x3A, 0x20]"

definition lit_dni_raboti :: jsstring where
  "lit_dni_raboti = [0x434, 0x43D, 0x438, 0x20, 0x440, 0x430, 0x431, 0x43E, 0x442, 0x44B, 0x3A, 0x20]"

definition lit_vremya_raboty :: jsstring where
  "lit_vremya_raboty = [0x432, 0x440, 0x435, 0x43C, 0x44F, 0x20, 0x440, 0x430, 0x431, 0x43E,
     0x442, 0x44B, 0x3A, 0x20]"

definition scheduleComponent :: "jsstring \<Rightarrow> jsval \<Rightarrow> jsstring \<Rightarrow> jsstring list" where
  "scheduleComponent label gafik key =
     (if truthy (getProp gafik key) then [label @ toStrOpt (getProp gafik key)] else [])"

definition extractSchedule_util :: "jsval option \<Rightarrow> jsval option" where
  "extractSchedule_util scheduleObj =
     (case scheduleObj of
        None \<Rightarrow> None
      | Some sched \<Rightarrow>
          if \<not> truthy (Some sched) then None
          else (case (if truthy (getProp sched (js ''GAFIK'')) then getProp sched (js ''GAFIK'') else None) of
                  Some gafik \<Rightarrow>
                    (let scheduleComponents =
                           scheduleComponent lit_smena gafik (js ''SMENA1'') @
                           scheduleComponent lit_dni_raboti gafik (js ''DNI_RABOTI1'') @
                           scheduleComponent lit_vremya_raboty gafik (js ''VREMYARABOTY1'');
                         joined = joinWith (js '', '') (filter (\<lambda>c. c \<noteq> []) scheduleComponents)
                     in if joined = [] then None else Some (Str joined))
                | None \<Rightarrow> (case sched of Str t \<Rightarrow> Some (Str t) | _ \<Rightarrow> None)))"

section \<open>utils/importJobsUtil.js: the text sanitizer\<close>

text \<open>
  The code units the class \<^verbatim>\<open>\s\<close> and \<^verbatim>\<open>trim\<close> take for white space (white space and line
  terminators), and the line terminators, which \<^verbatim>\<open>.\<close> does not match.
\<close>

definition isSpace :: "16 word \<Rightarrow> bool" where
  "isSpace c =
     (c \<in> set [0x9, 0xA, 0xB, 0xC, 0xD, 0x20, 0xA0, 0x1680, 0x2028, 0x2029, 0x202F, 0x205F,
               0x3000, 0xFEFF]
      \<or> (0x2000 \<le> c \<and> c \<le> 0x200A))"

definition isLineTerminator :: "16 word \<Rightarrow> bool" where
  "isLineTerminator c = (c \<in> set [0xA, 0xD, 0x2028, 0x2029])"

definition trim :: "jsstring \<Rightarrow> jsstring" where
  "trim t = rev (dropWhile isSpace (rev (dropWhile isSpace t)))"

text \<open>
  A global regular expression is run from left to right. A matcher tells, for the text
  that starts at the current position, whether the pattern matches there and what is left
  after the match. Every pattern below takes at least one code unit, which is the guard
  \<open>length rest \<le> length cs\<close>. \<open>replaceAll\<close> is \<^verbatim>\<open>str.replace(/.../g, replacement)\<close>,
  \<open>matchAll\<close> collects the first group of every match of \<^verbatim>\<open>str.matchAll(/.../g)\<close>.
\<close>

fun replaceAll :: "(jsstring \<Rightarrow> jsstring option) \<Rightarrow> jsstring \<Rightarrow> jsstring \<Rightarrow> jsstring" where
  "replaceAll m replacement [] = []"
| "replaceAll m replacement (c # cs) =
     (case m (c # cs) of
        None \<Rightarrow> c # replaceAll m replacement cs
      | Some rest \<Rightarrow>
          if length rest \<le> length cs then replacement @ replaceAll m replacement rest
          else c # replaceAll m replacement cs)"

fun matchAll :: "(jsstring \<Rightarrow> (jsstring \<times> jsstring) option) \<Rightarrow> jsstring \<Rightarrow> jsstring list" where
  "matchAll m [] = []"
| "matchAll m (c # cs) =
     (case m (c # cs) of
        None \<Rightarrow> matchAll m cs
      | Some (group1, rest) \<Rightarrow>
          if length rest \<le> length cs then group1 # matchAll m rest
          else matchAll m cs)"

text \<open>
  \<^verbatim>\<open>/<li[^>]*>(.*?)<\/li>/gi\<close>. After \<^verbatim>\<open><li\<close> (either case; only the ASCII letters match
  without the \<^verbatim>\<open>u\<close> flag) the class \<^verbatim>\<open>[^>]*\<close> runs to the next \<^verbatim>\<open>>\<close>, which must be
  there; the lazy group then grows by one code unit that is not a line terminator until
  \<^verbatim>\<open></li>\<close> follows.
\<close>

definition isCloseLi :: "jsstring \<Rightarrow> bool" where
  "isCloseLi t =
     (case t of
        a # b # c # d # e # _ \<Rightarrow>
          a = 0x3C \<and> b = 0x2F \<and> (c = 0x6C \<or> c = 0x4C) \<and> (d = 0x69 \<or> d = 0x49) \<and> e = 0x3E
      | _ \<Rightarrow> False)"

fun lazyItem :: "jsstring \<Rightarrow> (jsstring \<times> jsstring) option" where
  "lazyItem [] = None"
| "lazyItem (c # cs) =
     (if isCloseLi (c # cs) then Some ([], drop 4 cs)
      else if isLineTerminator c then None
      else (case lazyItem cs of
              None \<Rightarrow> None
            | Some (item, rest) \<Rightarrow> Some (c # item, rest)))"

definition matchLi :: "jsstring \<Rightarrow> (jsstring \<times> jsstring) option" where
  "matchLi t =
     (case t of
        a # b # c # r \<Rightarrow>
          if a = 0x3C \<and> (b = 0x6C \<or> b = 0x4C) \<and> (c = 0x69 \<or> c = 0x49)
          then (case dropWhile (\<lambda>x. x \<noteq> 0x3E) r of
                  [] \<Rightarrow> None
                | gt # body \<Rightarrow> lazyItem body)
          else None
      | _ \<Rightarrow> None)"

text \<open>
  \<^verbatim>\<open>/<br\s*\/?>/gi\<close>: after \<^verbatim>\<open><br\<close> the white space, then one optional slash, then \<^verbatim>\<open>>\<close>.
\<close>

definition matchBr :: "jsstring \<Rightarrow> jsstring option" where
  "matchBr t =
     (case t of
        a # b # c # r \<Rightarrow>
          if a = 0x3C \<and> (b = 0x62 \<or> b = 0x42) \<and> (c = 0x72 \<or> c = 0x52)
          then (let r1 = dropWhile isSpace r;
                    r2 = (case r1 of [] \<Rightarrow> r1 | x # r' \<Rightarrow> if x = 0x2F then r' else r1)
                in case r2 of [] \<Rightarrow> None | x # r' \<Rightarrow> if x = 0x3E then Some r' else None)
          else None
      | _ \<Rightarrow> None)"

text \<open>
  \<^verbatim>\<open>/<\/?[^>]+(>|$)/g\<close>: a \<^verbatim>\<open><\<close> followed by at least one code unit other than \<^verbatim>\<open>>\<close> (a
  slash counts, through the optional slash or through the class); the match runs over all
  code units other than \<^verbatim>\<open>>\<close> and takes the \<^verbatim>\<open>>\<close> after them, or ends with the input.
\<close>

definition matchTag :: "jsstring \<Rightarrow> jsstring option" where
  "matchTag t =
     (case t of
        a # x # r \<Rightarrow>
          if a = 0x3C \<and> x \<noteq> 0x3E then Some (drop 1 (dropWhile (\<lambda>y. y \<noteq> 0x3E) r)) else None
      | _ \<Rightarrow> None)"

text \<open>\<^verbatim>\<open>/\s+/g\<close>: a run of white space.\<close>

definition matchSpaces :: "jsstring \<Rightarrow> jsstring option" where
  "matchSpaces t =
     (case t of [] \<Rightarrow> None | c # r \<Rightarrow> if isSpace c then Some (dropWhile isSpace r) else None)"

text \<open>
  The text after the three replacements and the trim, and the sanitizer. A truthy value
  that is not a string has no method \<^verbatim>\<open>matchAll\<close>: calling it throws.
\<close>

definition plainText :: "jsstring \<Rightarrow> jsstring" where
  "plainText html =
     trim (replaceAll matchSpaces (js '' '')
            (replaceAll matchTag [] (replaceAll matchBr (js '', '') html)))"

definition cleanHtmlToText :: "jsval option \<Rightarrow> js_error + jsstring option" where
  "cleanHtmlToText htmlString =
     (if \<not> truthy htmlString then Inr None
      else (case htmlString of
              Some (Str html) \<Rightarrow>
                (let liMatches = matchAll matchLi html
                 in if liMatches \<noteq> [] then Inr (Some (joinWith (js '', '') (map trim liMatches)))
                    else (let text = plainText html
                          in Inr (if text = [] then None else Some text)))
            | _ \<Rightarrow> Inl TypeError))"

text \<open>The sanitizer applied to its own result.\<close>

definition cleanAgain :: "js_error + jsstring option \<Rightarrow> js_error + jsstring option" where
  "cleanAgain r =
     (case r of
        Inl e \<Rightarrow> Inl e
      | Inr None \<Rightarrow> cleanHtmlToText None
      | Inr (Some t) \<Rightarrow> cleanHtmlToText (Some (Str t)))"

section \<open>utils/importJobsUtil.js: the dates\<close>

text \<open>\<^verbatim>\<open>str.split(sep)\<close> for a separator of one code unit.\<close>

fun splitOn :: "16 word \<Rightarrow> jsstring \<Rightarrow> jsstring list" where
  "splitOn sep [] = [[]]"
| "splitOn sep (c # cs) =
     (if c = sep then [] # splitOn sep cs
      else (case splitOn sep cs of [] \<Rightarrow> [[c]] | part # parts \<Rightarrow> (c # part) # parts))"

text \<open>The template literal of \<^verbatim>\<open>parseDate\<close>, with \<^verbatim>\<open>fullYear\<close> in it.\<close>

definition recomposed :: "jsstring \<Rightarrow> jsstring \<Rightarrow> jsstring \<Rightarrow> jsstring" where
  "recomposed day month year =
     (if length year = 2 then js ''20'' @ year else year) @ js ''-'' @ month @ js ''-'' @ day"

definition parseDate :: "jsval option \<Rightarrow> js_error + jsstring option" where
  "parseDate dateStr =
     (if \<not> truthy dateStr then Inr None
      else (case dateStr of
              Some (Str t) \<Rightarrow>
                (case splitOn 0x2E t of
                   [day, month, year] \<Rightarrow> Inr (Some (recomposed day month year))
                 | _ \<Rightarrow> Inr None)
            | _ \<Rightarrow> Inl TypeError))"

text \<open>
  \<^verbatim>\<open>parseInt(x, 10)\<close>: the string of \<open>x\<close> without its leading white space, an optional sign,
  then the longest run of decimal digits; \<open>None\<close> is \<^verbatim>\<open>NaN\<close>. The integer is taken exactly:
  the double of the source is exact wherever the date below is valid.
\<close>

definition parseInt10 :: "jsstring \<Rightarrow> int option" where
  "parseInt10 t =
     (let t1 = dropWhile isSpace t;
          negative = (case t1 of [] \<Rightarrow> False | c # _ \<Rightarrow> c = 0x2D);
          t2 = (case t1 of [] \<Rightarrow> t1 | c # r \<Rightarrow> if c = 0x2D \<or> c = 0x2B then r else t1);
          digits = takeWhile isDigit t2
      in if digits = [] then None
         else Some (if negative then - int (parseDigits digits) else int (parseDigits digits)))"

text \<open>
  The runtime's \<^verbatim>\<open>Date\<close>: the civil date (proleptic Gregorian, UTC) of a day number counted
  from 1970-01-01. Years are counted from 1 March in eras of 400 years (146097 days),
  centuries of 36524 days, cycles of 4 years (1461 days) and years of 365 days; the leap
  day is the last day of its cycle, century or era. \<open>yearOfEra\<close> gives the year of the era
  and the day of that year, \<open>monthDay\<close> the month and the day of the month.
\<close>

definition yearOfEra :: "int \<Rightarrow> int \<times> int" where
  "yearOfEra doe =
     (let c = min 3 (doe div 36524);
          doc = doe - 36524 * c;
          q = doc div 1461;
          doq = doc mod 1461;
          yq = min 3 (doq div 365)
      in (100 * c + 4 * q + yq, doq - 365 * yq))"

definition monthDay :: "int \<Rightarrow> int \<times> int" where
  "monthDay doy =
     (let mp = (5 * doy + 2) div 153
      in (if mp < 10 then mp + 3 else mp - 9, doy - (153 * mp + 2) div 5 + 1))"

definition civil_from_days :: "int \<Rightarrow> int \<times> int \<times> int" where
  "civil_from_days days =
     (let z = days + 719468;
          (yoe, doy) = yearOfEra (z mod 146097);
          (m, d) = monthDay doy;
          y = 400 * (z div 146097) + yoe
      in (if m \<le> 2 then y + 1 else y, m, d))"

definition digitChar :: "nat \<Rightarrow> 16 word" where
  "digitChar k = of_nat (48 + k mod 10)"

definition pad2 :: "nat \<Rightarrow> jsstring" where
  "pad2 n = [digitChar (n div 10), digitChar n]"

definition pad3 :: "nat \<Rightarrow> jsstring" where
  "pad3 n = [digitChar (n div 100), digitChar (n div 10), digitChar n]"

definition pad4 :: "nat \<Rightarrow> jsstring" where
  "pad4 n = [digitChar (n div 1000), digitChar (n div 100), digitChar (n div 10), digitChar n]"

definition pad6 :: "nat \<Rightarrow> jsstring" where
  "pad6 n = [digitChar (n div 100000), digitChar (n div 10000), digitChar (n div 1000),
             digitChar (n div 100), digitChar (n div 10), digitChar n]"

text \<open>
  \<^verbatim>\<open>toISOString\<close> prints a year from 0 to 9999 with four digits and any other year with a
  sign and six digits.
\<close>

definition yearString :: "int \<Rightarrow> jsstring" where
  "yearString y =
     (if 0 \<le> y \<and> y \<le> 9999 then pad4 (nat y)
      else (if y < 0 then 0x2D else 0x2B) # pad6 (nat \<bar>y\<bar>))"

text \<open>
  \<^verbatim>\<open>new Date(tv).toISOString()\<close> for an integer time value \<open>tv\<close>: a time value beyond
  8.64e15 milliseconds makes an Invalid Date, for which \<^verbatim>\<open>toISOString\<close> throws a RangeError.
  \<open>datePart\<close> is the text before the \<^verbatim>\<open>T\<close>.
\<close>

definition datePart :: "int \<Rightarrow> int \<Rightarrow> int \<Rightarrow> jsstring" where
  "datePart y m d = yearString y @ js ''-'' @ pad2 (nat m) @ js ''-'' @ pad2 (nat d)"

definition toISOString :: "int \<Rightarrow> js_error + jsstring" where
  "toISOString tv =
     (if \<bar>tv\<bar> > 8640000000000000 then Inl RangeError
      else (let (y, m, d) = civil_from_days (tv div 86400000);
                ms = tv mod 86400000
            in Inr (datePart y m d @ js ''T'' @
                    pad2 (nat (ms div 3600000)) @ js '':'' @ pad2 (nat (ms div 60000 mod 60)) @
                    js '':'' @ pad2 (nat (ms div 1000 mod 60)) @ js ''.'' @ pad3 (nat (ms mod 1000)) @
                    js ''Z'')))"

definition toISODate :: "jsval option \<Rightarrow> js_error + jsstring option" where
  "toISODate timestamp =
     (case timestamp of
        None \<Rightarrow> Inr None
      | Some v \<Rightarrow>
          if \<not> truthy (Some v) then Inr None
          else (case parseInt10 (toStr v) of
                  None \<Rightarrow> Inr None
                | Some ts \<Rightarrow>
                    (case toISOString (ts * 1000) of
                       Inl e \<Rightarrow> Inl e
                     | Inr isoString \<Rightarrow>
                         Inr (Some (case splitOn 0x54 isoString of [] \<Rightarrow> [] | part # _ \<Rightarrow> part)))))"

subsection \<open>Well-formed dates in the specification's words\<close>

text \<open>
  The shape of an ISO calendar date: four digits, a hyphen, two digits, a hyphen, two
  digits. A calendar date has this shape, a month from 01 to 12 and a day from 01 to 31.
  ISO 8601 writes a year outside 0000 to 9999 in expanded form, with a sign and (here)
  six digits.
\<close>

definition isoDateShaped :: "jsstring \<Rightarrow> bool" where
  "isoDateShaped t =
     (length t = 10 \<and> list_all isDigit (take 4 t) \<and> t ! 4 = 0x2D \<and>
      list_all isDigit (take 2 (drop 5 t)) \<and> t ! 7 = 0x2D \<and> list_all isDigit (drop 8 t))"

definition isoCalendarDate :: "jsstring \<Rightarrow> bool" where
  "isoCalendarDate t =
     (isoDateShaped t \<and>
      1 \<le> parseDigits (take 2 (drop 5 t)) \<and> parseDigits (take 2 (drop 5 t)) \<le> 12 \<and>
      1 \<le> parseDigits (drop 8 t) \<and> parseDigits (drop 8 t) \<le> 31)"

definition isoExpandedDate :: "jsstring \<Rightarrow> bool" where
  "isoExpandedDate t =
     (length t = 13 \<and> (t ! 0 = 0x2B \<or> t ! 0 = 0x2D) \<and> list_all isDigit (take 6 (drop 1 t)) \<and>
      t ! 7 = 0x2D \<and> list_all isDigit (take 2 (drop 8 t)) \<and> t ! 10 = 0x2D \<and>
      list_all isDigit (drop 11 t) \<and>
      1 \<le> parseDigits (take 2 (drop 8 t)) \<and> parseDigits (take 2 (drop 8 t)) \<le> 12 \<and>
      1 \<le> parseDigits (drop 11 t) \<and> parseDigits (drop 11 t) \<le> 31)"

text \<open>A string of exactly \<open>n\<close> decimal digits.\<close>

definition isDigits :: "nat \<Rightarrow> jsstring \<Rightarrow> bool" where
  "isDigits n t = (length t = n \<and> list_all isDigit t)"

section \<open>utils/importJobsUtil.js: the record normalizer\<close>

text \<open>\<^verbatim>\<open>v || null\<close> and \<^verbatim>\<open>a || b\<close>.\<close>

definition orNull :: "jsval option \<Rightarrow> jsval option" where
  "orNull v = (if truthy v then v else None)"

definition orValue :: "jsval option \<Rightarrow> jsval option \<Rightarrow> jsval option" where
  "orValue a b = (if truthy a then a else b)"

text \<open>
  The object literal that the callback of \<^verbatim>\<open>jobRows.map\<close> returns, as the list of its
  properties in order (\<open>None\<close> is \<^verbatim>\<open>null\<close>). The properties are evaluated in this order, so
  the first call that throws decides the exception.
\<close>

type_synonym formatted_job = "(jsstring \<times> jsval option) list"

definition field :: "formatted_job \<Rightarrow> jsstring \<Rightarrow> jsval option" where
  "field j key = (case map_of j key of None \<Rightarrow> None | Some v \<Rightarrow> v)"

text \<open>The field of a result of the callback, when it returned.\<close>

definition fieldOf :: "js_error + formatted_job \<Rightarrow> jsstring \<Rightarrow> js_error + jsval option" where
  "fieldOf r key = map_sum id (\<lambda>j. field j key) r"


definition formatRow :: "jsval \<Rightarrow> js_error + formatted_job" where
  "formatRow row =
     (case toISODate (getProp row (js ''PUBLON'')) of
        Inl e \<Rightarrow> Inl e
      | Inr pubDate \<Rightarrow>
     (case toISODate (getProp row (js ''PUBLOFF'')) of
        Inl e \<Rightarrow> Inl e
      | Inr depubDate \<Rightarrow>
     (case parseDate (getProp row (js ''SCHETDATA'')) of
        Inl e \<Rightarrow> Inl e
      | Inr accDate \<Rightarrow>
     (case cleanHtmlToText (getProp row (js ''DOPINFORMS_USLOVIY'')) of
        Inl e \<Rightarrow> Inl e
      | Inr cond \<Rightarrow>
     (case cleanHtmlToText (getProp row (js ''DOPINFORMS_OBYZANOSTI'')) of
        Inl e \<Rightarrow> Inl e
      | Inr resp \<Rightarrow>
     (case cleanHtmlToText (getProp row (js ''DOPINFORMS_TREBOVANIY'')) of
        Inl e \<Rightarrow> Inl e
      | Inr reqs \<Rightarrow>
          Inr [(js ''job_title'', orNull (getProp row (js ''VAKNAZV''))),
               (js ''publication_date'', map_option Str pubDate),
               (js ''depub_date'', map_option Str depubDate),
               (js ''account_number'', orNull (getProp row (js ''SCHETNOMER''))),
               (js ''account_date'', map_option Str accDate),
               (js ''company_inn'', orNull (getProp row (js ''INNKOMPAN''))),
               (js ''company_name'', orNull (getProp row (js ''NAZVKOMPAN''))),
               (js ''phone'', extractPhone (getProp row (js ''TELEF''))),
               (js ''email'', orNull (getProp row (js ''ELPOCHTA''))),
               (js ''address'', Some (Str (combinedAddress row))),
               (js ''conditions'', map_option Str cond),
               (js ''responsibilities'', map_option Str resp),
               (js ''requirements'', map_option Str reqs),
               (js ''schedule'',
                  extractSchedule_util
                    (orValue (getProp row (js ''GAFIK_RABOTI1'')) (getProp row (js ''GAFIK_RABOTI'')))),
               (js ''salary'', orNull (getProp row (js ''ZARPL''))),
               (js ''contact_person'', orNull (getProp row (js ''KOGOSPROSITJ''))),
               (js ''extra_info'', orValue (getProp row (js ''VAKOPISANIYE'')) (Some (Str [])))]))))))"






subsection \<open>The validity invariant in the specification's words\<close>



section \<open>The upload route with import rules: extractSchedule\<close>

text \<open>
  The literals of the schedule phrase (``Grafik raboty: '', ``, vremya raboty: '' and the
  joiner ``, est' eshyo '' in Cyrillic).
\<close>

definition lit_grafik_raboty :: jsstring where
  "lit_grafik_raboty = [0x413, 0x440, 0x430, 0x444, 0x438, 0x43A, 0x20, 0x440, 0x430, 0x431,
     0x43E, 0x442, 0x44B, 0x3A, 0x20]"

definition lit_vremya_sep :: jsstring where
  "lit_vremya_sep = [0x2C, 0x20, 0x432, 0x440, 0x435, 0x43C, 0x44F, 0x20, 0x440, 0x430, 0x431,
     0x43E, 0x442, 0x44B, 0x3A, 0x20]"

definition lit_est_eshe :: jsstring where
  "lit_est_eshe = [0x2C, 0x20, 0x435, 0x441, 0x442, 0x44C, 0x20, 0x435, 0x449, 0x451, 0x20]"

text \<open>
  \<^verbatim>\<open>content.includes('/')\<close>: a string is searched for the character, an array for an
  element equal to the string \<^verbatim>\<open>/\<close>; an object has no method \<^verbatim>\<open>includes\<close>, and calling it
  throws. \<^verbatim>\<open>x.startsWith('0')\<close> exists on strings only.
\<close>

definition includesSlash :: "jsval \<Rightarrow> js_error + bool" where
  "includesSlash content =
     (case content of
        Str t \<Rightarrow> Inr (0x2F \<in> set t)
      | Arr xs \<Rightarrow> Inr (Str [0x2F] \<in> set xs)
      | Obj ps \<Rightarrow> Inl TypeError)"

definition startsWith0 :: "jsval \<Rightarrow> js_error + bool" where
  "startsWith0 x =
     (case x of
        Str t \<Rightarrow> Inr (case t of [] \<Rightarrow> False | c # _ \<Rightarrow> c = 0x30)
      | _ \<Rightarrow> Inl TypeError)"

text \<open>
  \<^verbatim>\<open>timeRegex.test(content)\<close> for
  \<^verbatim>\<open>/^(0?\d|1\d|2[0-3]):([0-5]\d)-(0?\d|1\d|2[0-3]):([0-5]\d)$/\<close>, applied to the string of
  \<open>content\<close>. \<open>hourRests\<close> lists what is left after each way the hour group can match.
\<close>

definition hourRests :: "jsstring \<Rightarrow> jsstring list" where
  "hourRests t =
     (case t of
        [] \<Rightarrow> []
      | c # r \<Rightarrow>
          (case r of
             [] \<Rightarrow> []
           | d # r2 \<Rightarrow>
               (if c = 0x30 \<and> isDigit d then [r2] else []) @
               (if c = 0x31 \<and> isDigit d then [r2] else []) @
               (if c = 0x32 \<and> 0x30 \<le> d \<and> d \<le> 0x33 then [r2] else [])) @
          (if isDigit c then [r] else []))"

definition expectChar :: "16 word \<Rightarrow> jsstring \<Rightarrow> jsstring option" where
  "expectChar c t = (case t of [] \<Rightarrow> None | x # r \<Rightarrow> if x = c then Some r else None)"

definition minuteRest :: "jsstring \<Rightarrow> jsstring option" where
  "minuteRest t =
     (case t of
        c # d # r \<Rightarrow> if 0x30 \<le> c \<and> c \<le> 0x35 \<and> isDigit d then Some r else None
      | _ \<Rightarrow> None)"

definition hourMinuteRests :: "jsstring \<Rightarrow> jsstring list" where
  "hourMinuteRests t =
     concat (map (\<lambda>r1. case expectChar 0x3A r1 of
                          None \<Rightarrow> []
                        | Some r2 \<Rightarrow> (case minuteRest r2 of None \<Rightarrow> [] | Some r3 \<Rightarrow> [r3]))
               (hourRests t))"

definition timeRegex_test :: "jsstring \<Rightarrow> bool" where
  "timeRegex_test t =
     list_ex (\<lambda>r3. case expectChar 0x2D r3 of
                      None \<Rightarrow> False
                    | Some r4 \<Rightarrow> [] \<in> set (hourMinuteRests r4))
       (hourMinuteRests t)"

text \<open>
  The state of the loop over \<^verbatim>\<open>gaflikArray\<close>: \<^verbatim>\<open>schedules\<close>, \<^verbatim>\<open>currentDays\<close> and
  \<^verbatim>\<open>currentTime\<close> (\<open>None\<close> is \<^verbatim>\<open>null\<close>; a content that is stored is truthy).
\<close>

type_synonym schedule_state = "jsstring list \<times> jsval option \<times> jsval option"

text \<open>The last \<^verbatim>\<open>if\<close> of the loop body: a day range and a time range make a phrase.\<close>

definition pairUp :: "schedule_state \<Rightarrow> schedule_state" where
  "pairUp st =
     (case st of
        (schedules, Some days, Some time) \<Rightarrow>
          (schedules @ [lit_grafik_raboty @ toStr days @ lit_vremya_sep @ toStr time], None, None)
      | _ \<Rightarrow> st)"

definition scheduleStep :: "jsval \<Rightarrow> schedule_state \<Rightarrow> js_error + schedule_state" where
  "scheduleStep item st =
     (case st of (schedules, currentDays, currentTime) \<Rightarrow>
        (let content = (if truthy (getProp item (js ''_''))
                        then (case getProp item (js ''_'') of Some c \<Rightarrow> c | None \<Rightarrow> item)
                        else item)
         in if \<not> truthy (Some content) then Inr st
            else (case includesSlash content of
                    Inl e \<Rightarrow> Inl e
                  | Inr True \<Rightarrow> Inr (pairUp (schedules, Some content, currentTime))
                  | Inr False \<Rightarrow>
                      if timeRegex_test (toStr content) then
                        (case currentTime of
                           None \<Rightarrow> Inr (pairUp (schedules, currentDays, Some content))
                         | Some time \<Rightarrow>
                             (case startsWith0 content of
                                Inl e \<Rightarrow> Inl e
                              | Inr False \<Rightarrow> Inr (pairUp st)
                              | Inr True \<Rightarrow>
                                  (case startsWith0 time of
                                     Inl e \<Rightarrow> Inl e
                                   | Inr True \<Rightarrow> Inr (pairUp st)
                                   | Inr False \<Rightarrow> Inr (pairUp (schedules, currentDays, Some content)))))
                      else Inr (pairUp st))))"

fun scheduleLoop :: "jsval list \<Rightarrow> schedule_state \<Rightarrow> js_error + schedule_state" where
  "scheduleLoop [] st = Inr st"
| "scheduleLoop (item # rest) st =
     (case scheduleStep item st of
        Inl e \<Rightarrow> Inl e
      | Inr st' \<Rightarrow> scheduleLoop rest st')"

definition extractSchedule :: "jsval option \<Rightarrow> js_error + jsstring option" where
  "extractSchedule scheduleBlock =
     (case scheduleBlock of
        None \<Rightarrow> Inr None
      | Some block \<Rightarrow>
          if \<not> truthy (Some block) \<or> \<not> truthy (getProp block (js ''GAFIK'')) then Inr None
          else (let gaflikArray = (case getProp block (js ''GAFIK'') of
                                     Some (Arr xs) \<Rightarrow> xs
                                   | Some g \<Rightarrow> [g]
                                   | None \<Rightarrow> [])
                in case scheduleLoop gaflikArray ([], None, None) of
                     Inl e \<Rightarrow> Inl e
                   | Inr (schedules, days, time) \<Rightarrow>
                       Inr (if schedules \<noteq> [] then Some (joinWith lit_est_eshe schedules) else None)))"

section \<open>The upload route with import rules: applyImportRules\<close>

text \<open>
  A \<^verbatim>\<open>Date\<close> object is its time value: milliseconds since the epoch, or \<open>None\<close> for an
  Invalid Date (\<^verbatim>\<open>NaN\<close>). How \<^verbatim>\<open>new Date(string)\<close> reads a string is left to the runtime, so
  a column that holds a date is modelled by the \<^verbatim>\<open>Date\<close> made of it; \<open>None\<close> at the outer
  level is \<^verbatim>\<open>null\<close>.
\<close>

type_synonym js_date = "int option"

text \<open>\<^verbatim>\<open>new Date(x)\<close> for \<open>x\<close> a date or \<^verbatim>\<open>null\<close>: \<^verbatim>\<open>new Date(null)\<close> is the epoch.\<close>

definition newDate :: "js_date option \<Rightarrow> js_date" where
  "newDate x = (case x of None \<Rightarrow> Some 0 | Some d \<Rightarrow> d)"

text \<open>\<^verbatim>\<open>a <= b\<close> on two dates compares the time values and is false when one is \<^verbatim>\<open>NaN\<close>.\<close>

definition date_le :: "js_date \<Rightarrow> js_date \<Rightarrow> bool" where
  "date_le a b = (case (a, b) of (Some x, Some y) \<Rightarrow> x \<le> y | _ \<Rightarrow> False)"

text \<open>
  Of \<^verbatim>\<open>jobData\<close> the rules read the two dates (and the two columns of the query); the
  other fields are the extension of the record. Of a stored row they read \<^verbatim>\<open>account_date\<close>.
\<close>

record jobData =
  depub_date :: "js_date option"
  account_date :: "js_date option"

record existingJob =
  existing_account_date :: "js_date option"

text \<open>
  The store is outside the repository: \<open>fetched\<close> is what the query by \<^verbatim>\<open>company_inn\<close> and
  \<^verbatim>\<open>job_title\<close> of the candidate returned, an error or the matching rows.
\<close>

datatype fetch_result = FetchError | Rows "existingJob list"

text \<open>The first \<^verbatim>\<open>if\<close>; \<open>today\<close> is the time value of today's local midnight.\<close>

definition depubExpired :: "int \<Rightarrow> 'a jobData_scheme \<Rightarrow> bool" where
  "depubExpired today jd =
     (case depub_date jd of
        None \<Rightarrow> False
      | Some d \<Rightarrow> date_le (newDate (Some d)) (Some today))"

text \<open>\<open>None\<close> is \<^verbatim>\<open>{shouldInsert: false, data: null}\<close>, \<open>Some d\<close> is \<^verbatim>\<open>{shouldInsert: true, data: d}\<close>.\<close>

definition applyImportRules ::
  "int \<Rightarrow> fetch_result \<Rightarrow> 'a jobData_scheme \<Rightarrow> 'a jobData_scheme option" where
  "applyImportRules today fetched jd =
     (if depubExpired today jd then None
      else (case fetched of
              FetchError \<Rightarrow> Some jd
            | Rows existingJobs \<Rightarrow>
                (case existingJobs of
                   [] \<Rightarrow> Some jd
                 | existing # _ \<Rightarrow>
                     if date_le (newDate (account_date jd)) (newDate (existing_account_date existing))
                     then None else Some jd)))"

subsection \<open>Reading the rendered message\<close>


subsection \<open>Example inputs\<close>

text \<open>A stored row with the given title and every other column \<^verbatim>\<open>null\<close>.\<close>

definition titled_job :: "jsstring option \<Rightarrow> job" where
  "titled_job t =
     \<lparr>job_id = None, job_title = t, account_number = None, company_name = None,
      phone = None, email = None, address = None, conditions = None,
      responsibilities = None, requirements = None, schedule = None, salary = None\<rparr>"

text \<open>A similarity that is 1 on equal strings and 0 otherwise, and a case map that changes nothing.\<close>

definition exact_match :: "jsstring \<Rightarrow> jsstring \<Rightarrow> rat" where
  "exact_match a b = (if a = b then 1 else 0)"

definition same_case :: "jsstring \<Rightarrow> jsstring" where
  "same_case s = s"



definition example_options :: "rat \<Rightarrow> options" where
  "example_options t =
     \<lparr>hideCompanyName = False, salaryThreshold = t, includeConditions = True,
      includeResponsibilities = True, includeRequirements = True, hideAddress = False,
      hideEmail = False\<rparr>"

text \<open>
  A transport whose first call is rejected, whose second call gets an API-level error and
  whose later calls succeed with post 7.
\<close>

definition flaky_transport :: transport where
  "flaky_transport k req =
     (if k = 0 then Rejected (js ''timeout'')
      else if k = 1 then Resolved \<lparr>response = None, error_msg = Some (js ''flood'')\<rparr>
      else Resolved \<lparr>response = Some 7, error_msg = None\<rparr>)"



text \<open>
  A row of the new schema with the address blocks 2 and 5 only; block 5 also has a
  district, which is not one of the four components.
\<close>

definition example_row :: jsval where
  "example_row = Obj
     [(js ''VAKNAZV'', Str (js ''Driver'')),
      (js ''ADRESSORABOTI2'', Obj [(js ''ADRESSORABOTI2-OBLAST'', Str (js ''A'')),
                                   (js ''ADRESSORABOTI2-GOROD'', Str (js ''B''))]),
      (js ''ADRESSORABOTI5'', Obj [(js ''ADRESSORABOTI5-ULICA'', Str (js ''C'')),
                                   (js ''ADRESSORABOTI5-OBLAST-RAION'', Str (js ''R'')),
                                   (js ''ADRESSORABOTI5-DOM'', Str (js ''7''))])]"

text \<open>A schedule block of the new schema: \<^verbatim>\<open>GAFIK\<close> has child elements and no text.\<close>

definition nested_schedule :: jsval where
  "nested_schedule = Obj [(js ''GAFIK'', Obj [(js ''SMENA1'', Str (js ''1''))])]"

text \<open>
  A row with an epoch timestamp and a dotted account date; a row whose account date is
  three dotted tokens that are no numbers; a feed of four rows, of which the second has
  an empty title only and the third is a stray text.
\<close>

definition dated_row :: jsval where
  "dated_row = Obj [(js ''VAKNAZV'', Str (js ''Driver'')), (js ''PUBLON'', Str (js ''1700000000'')),
                    (js ''SCHETDATA'', Str (js ''05.03.24''))]"

definition undated_row :: jsval where
  "undated_row = Obj [(js ''VAKNAZV'', Str (js ''x'')), (js ''SCHETDATA'', Str (js ''a.b.c''))]"


section \<open>Fuzzy title clustering\<close>

lemma scanGroups_titled:
  assumes "job_title j = Some a" and "anchored gs"
  shows "scanGroups sim lower j gs =
           Inr (if list_ex (similar_to_anchor sim lower j) gs
                then (join_first_match sim lower gs j, True) else (gs, False))"
  using assms(2)
proof (induction gs)
  case Nil
  then show ?case by simp
next
  case (Cons g gs)
  from Cons.prems obtain g0 gt b where g: "g = g0 # gt" and b: "job_title g0 = Some b"
    and rest: "anchored gs"
    by (auto simp: anchored_def split: list.splits)
  show ?case
  proof (cases "threshold \<le> sim (lower a) (lower b)")
    case True
    then show ?thesis
      using assms(1) g b
      by (simp add: toLowerCase_def similar_to_anchor_def join_first_match_def)
  next
    case False
    then have ns: "\<not> similar_to_anchor sim lower j g"
      using assms(1) g b by (simp add: similar_to_anchor_def)
    show ?thesis
      using False ns assms(1) g b Cons.IH [OF rest]
      by (simp add: toLowerCase_def join_first_match_def)
  qed
qed

lemma join_first_match_no_match:
  "\<not> list_ex (similar_to_anchor sim lower j) gs \<Longrightarrow> join_first_match sim lower gs j = gs @ [[j]]"
  by (induction gs) (auto simp: join_first_match_def)

lemma placeJob_titled:
  assumes "job_title j = Some a" and "anchored gs"
  shows "placeJob sim lower gs j = Inr (join_first_match sim lower gs j)"
  using scanGroups_titled [OF assms, of sim lower] join_first_match_no_match [of sim lower j gs]
  by (simp add: placeJob_def)

lemma anchored_join_first_match:
  assumes "job_title j = Some a" and "anchored gs"
  shows "anchored (join_first_match sim lower gs j)"
  using assms(2)
proof (induction gs)
  case Nil
  then show ?case using assms(1) by (simp add: anchored_def join_first_match_def)
next
  case (Cons g gs)
  then show ?case
    using assms(1)
    by (auto simp: anchored_def join_first_match_def split: list.splits)
qed

lemma forEachJob_titled:
  assumes "\<forall>j\<in>set jobs. job_title j \<noteq> None" and "anchored gs"
  shows "forEachJob sim lower gs jobs = Inr (foldl (join_first_match sim lower) gs jobs)"
  using assms
proof (induction jobs arbitrary: gs)
  case Nil
  then show ?case by simp
next
  case (Cons j jobs)
  from Cons.prems(1) obtain a where a: "job_title j = Some a" by auto
  have "anchored (join_first_match sim lower gs j)"
    using a Cons.prems(2) by (rule anchored_join_first_match)
  then show ?case
    using Cons.IH [of "join_first_match sim lower gs j"] Cons.prems(1)
      placeJob_titled [OF a Cons.prems(2), of sim lower]
    by simp
qed

text \<open>
  C6. For jobs that all carry a title, \<^verbatim>\<open>groupJobsByVacancyName\<close> returns the clusters
  built by taking the jobs in input order and letting each join the first existing
  cluster whose first member's lower-cased title has similarity at least 0.4 with the
  job's lower-cased title, or else start a singleton cluster after all existing ones.
\<close>

theorem groupJobsByVacancyName_first_match:
  assumes "\<forall>j\<in>set jobs. job_title j \<noteq> None"
  shows "groupJobsByVacancyName sim lower jobs = Inr (cluster_in_order sim lower jobs)"
  using forEachJob_titled [OF assms, of "[]" sim lower]
  by (simp add: groupJobsByVacancyName_def cluster_in_order_def anchored_def)

theorem groupJobsByVacancyName_first_match_witness:
  "groupJobsByVacancyName exact_match same_case
     [titled_job (Some (js ''a'')), titled_job (Some (js ''b'')), titled_job (Some (js ''a''))]
   = Inr [[titled_job (Some (js ''a'')), titled_job (Some (js ''a''))],
          [titled_job (Some (js ''b''))]]"
  using groupJobsByVacancyName_first_match
    [of "[titled_job (Some (js ''a'')), titled_job (Some (js ''b'')), titled_job (Some (js ''a''))]"
        exact_match same_case]
  by (simp add: titled_job_def cluster_in_order_def join_first_match_def similar_to_anchor_def
      exact_match_def same_case_def threshold_def js_def)

section \<open>Fuzzy title clustering and absent titles\<close>

lemma scanGroups_untitled:
  "job_title j = None \<Longrightarrow> gs \<noteq> [] \<Longrightarrow> scanGroups sim lower j gs = Inl TypeError"
  by (cases gs) (simp_all add: toLowerCase_def)

lemma scanGroups_untitled_anchor:
  "job_title g0 = None \<Longrightarrow> scanGroups sim lower j ((g0 # gt) # rest) = Inl TypeError"
  by (cases "job_title j") (simp_all add: toLowerCase_def)

lemma join_first_match_not_Nil: "join_first_match sim lower gs j \<noteq> []"
  by (simp add: join_first_match_def split: list.splits)

lemma forEachJob_untitled:
  assumes "\<exists>j\<in>set jobs. job_title j = None" and "anchored gs" and "gs \<noteq> []"
  shows "forEachJob sim lower gs jobs = Inl TypeError"
  using assms
proof (induction jobs arbitrary: gs)
  case Nil
  then show ?case by simp
next
  case (Cons j jobs)
  show ?case
  proof (cases "job_title j")
    case None
    then show ?thesis
      using Cons.prems(3) by (simp add: placeJob_def scanGroups_untitled)
  next
    case (Some a)
    with Cons.prems(1) have later: "\<exists>j\<in>set jobs. job_title j = None" by auto
    have "anchored (join_first_match sim lower gs j)"
      using Some Cons.prems(2) by (rule anchored_join_first_match)
    then have "forEachJob sim lower (join_first_match sim lower gs j) jobs = Inl TypeError"
      using later join_first_match_not_Nil [of sim lower gs j] by (intro Cons.IH)
    then show ?thesis
      using placeJob_titled [OF Some Cons.prems(2), of sim lower] by simp
  qed
qed

lemma forEachJob_untitled_first:
  assumes "job_title j1 = None"
  shows "forEachJob sim lower [] (j1 # j2 # rest) = Inl TypeError"
  using assms scanGroups_untitled_anchor [of j1 sim lower j2 "[]" "[]"]
  by (simp add: placeJob_def)

text \<open>
  C10, as the code behaves. \<^verbatim>\<open>groupJobsByVacancyName\<close> throws a TypeError exactly when the
  list holds at least two jobs and one of them has no title: the first job meets no
  cluster, so its title is not read until a second job is compared with it.
\<close>

theorem groupJobsByVacancyName_throws_iff:
  "groupJobsByVacancyName sim lower jobs = Inl TypeError
     \<longleftrightarrow> 2 \<le> length jobs \<and> (\<exists>j\<in>set jobs. job_title j = None)"
proof (cases "\<exists>j\<in>set jobs. job_title j = None")
  case False
  then have "\<forall>j\<in>set jobs. job_title j \<noteq> None" by simp
  then have "forEachJob sim lower [] jobs = Inr (foldl (join_first_match sim lower) [] jobs)"
    by (rule forEachJob_titled) (simp add: anchored_def)
  then show ?thesis using False by (simp add: groupJobsByVacancyName_def)
next
  case True
  show ?thesis
  proof (cases jobs)
    case Nil
    then show ?thesis by (simp add: groupJobsByVacancyName_def)
  next
    case (Cons j1 tl1)
    note jobs = Cons
    show ?thesis
    proof (cases tl1)
      case Nil
      then show ?thesis using jobs by (simp add: groupJobsByVacancyName_def placeJob_def)
    next
      case (Cons j2 rest)
      have "forEachJob sim lower [] (j1 # j2 # rest) = Inl TypeError"
      proof (cases "job_title j1")
        case None
        then show ?thesis by (rule forEachJob_untitled_first)
      next
        case (Some a)
        have first: "placeJob sim lower [] j1 = Inr [[j1]]" by (simp add: placeJob_def)
        have "\<exists>j\<in>set (j2 # rest). job_title j = None"
          using True jobs Cons Some by auto
        then have "forEachJob sim lower [[j1]] (j2 # rest) = Inl TypeError"
          by (rule forEachJob_untitled) (simp_all add: anchored_def Some)
        then show ?thesis using first by simp
      qed
      then show ?thesis using True jobs Cons by (simp add: groupJobsByVacancyName_def)
    qed
  qed
qed

theorem groupJobsByVacancyName_throws_iff_witness:
  "groupJobsByVacancyName exact_match same_case [titled_job (Some (js ''a'')), titled_job None]
     = Inl TypeError"
  using groupJobsByVacancyName_throws_iff
    [of exact_match same_case "[titled_job (Some (js ''a'')), titled_job None]"]
  by (simp add: titled_job_def)

text \<open>A single job with no title is grouped without any exception.\<close>

theorem groupJobsByVacancyName_single_untitled:
  "job_title (titled_job None) = None \<and>
   groupJobsByVacancyName exact_match same_case [titled_job None] = Inr [[titled_job None]]"
  by (simp add: groupJobsByVacancyName_def placeJob_def titled_job_def)

section \<open>The salary line of the post composer\<close>










section \<open>The publish loop\<close>

lemma publishLoop_results:
  "results (publishLoop tr tok own opts k groups st) =
     results st @
     map (\<lambda>(i, g). (map job_title g, postToVkWall tr i (createPostMessage g opts) tok own))
       (enumerate k groups)"
  by (induction groups arbitrary: k st) (simp_all add: Let_def)

lemma postToVkWall_rejected:
  "tr k (own, msg, tok) = Rejected m \<Longrightarrow> postToVkWall tr k msg tok own = Failed m"
  by (simp add: postToVkWall_def postToVkWall_try_def)

lemma postToVkWall_api_error:
  "tr k (own, msg, tok) = Resolved d \<Longrightarrow> response d = None \<Longrightarrow>
     postToVkWall tr k msg tok own = Failed (or_else (error_msg d) lit_unknown_error)"
  by (simp add: postToVkWall_def postToVkWall_try_def)

text \<open>
  C9. Whatever the transport does at each call, the loop ends with one more result entry
  per group, in the order of the groups; the entry of group \<open>i\<close> holds the titles of that
  group and the result of its own publish call; when that call is rejected (transport
  error) or answered without a response (API-level error) the entry is a failure with the
  error's message, and the entries of all later groups are still there. The publish step
  is a total function: its \<^verbatim>\<open>catch\<close> returns a failed result.
\<close>

theorem publishLoop_failure_isolated:
  "length (results (publishLoop tr tok own opts k groups st)) = length (results st) + length groups \<and>
   (\<forall>i<length groups.
      results (publishLoop tr tok own opts k groups st) ! (length (results st) + i) =
        (map job_title (groups ! i),
         postToVkWall tr (k + i) (createPostMessage (groups ! i) opts) tok own) \<and>
      (\<forall>m. tr (k + i) (own, createPostMessage (groups ! i) opts, tok) = Rejected m \<longrightarrow>
         snd (results (publishLoop tr tok own opts k groups st) ! (length (results st) + i))
           = Failed m) \<and>
      (\<forall>d. tr (k + i) (own, createPostMessage (groups ! i) opts, tok) = Resolved d \<and>
            response d = None \<longrightarrow>
         snd (results (publishLoop tr tok own opts k groups st) ! (length (results st) + i))
           = Failed (or_else (error_msg d) lit_unknown_error)))"
  by (auto simp: publishLoop_results nth_append nth_enumerate_eq postToVkWall_rejected
      postToVkWall_api_error)

theorem publishLoop_failure_isolated_witness:
  "results (publishLoop flaky_transport (js ''token'') (js ''-1'') (example_options 0) 0
     [[titled_job (Some (js ''a''))], [titled_job (Some (js ''b''))],
      [(titled_job (Some (js ''c'')))\<lparr>job_id := Some 5\<rparr>]]
     \<lparr>results = [], marked = []\<rparr>)
   = [([Some (js ''a'')], Failed (js ''timeout'')),
      ([Some (js ''b'')], Failed (js ''flood'')),
      ([Some (js ''c'')], Posted 7 (js ''https://vk.com/wall-1_7''))]"
  using publishLoop_failure_isolated
    [of flaky_transport "js ''token''" "js ''-1''" "example_options 0" 0
        "[[titled_job (Some (js ''a''))], [titled_job (Some (js ''b''))],
          [(titled_job (Some (js ''c'')))\<lparr>job_id := Some 5\<rparr>]]"
        "\<lparr>results = [], marked = []\<rparr>"]
  by (simp add: Let_def postToVkWall_def postToVkWall_try_def flaky_transport_def titled_job_def
      or_else_def decimal.simps js_def)

section \<open>The admission policy\<close>



text \<open>
  An account date that is an Invalid Date has no time value: the comparison is false and
  a candidate that the depublication rule lets through is accepted.
\<close>

lemma applyImportRules_invalid_account_date:
  "\<not> depubExpired today jd \<Longrightarrow> account_date jd = Some None \<Longrightarrow>
     applyImportRules today fetched jd = Some jd"
  by (auto simp: applyImportRules_def date_le_def newDate_def split: fetch_result.splits list.splits)

section \<open>Address extraction over the numbered blocks\<close>

lemma upt_1_9: "[1..<9] = [1, 2, 3, 4, 5, 6, 7, 8::nat]"
  by (simp add: upt_rec)

lemma addresses_blocks_2_5:
  assumes "\<not> truthy (getProp row (js ''ADRESSORABOTI''))"
    and "\<forall>i\<in>{1, 3, 4, 6, 7, 8}. \<not> truthy (getProp row (numberedAddressKey i))"
    and "truthy (getProp row (numberedAddressKey 2))"
    and "truthy (getProp row (numberedAddressKey 5))"
  shows "addresses row = [extractAddress (getProp row (numberedAddressKey 2)),
                          extractAddress (getProp row (numberedAddressKey 5))]"
  using assms unfolding addresses_def upt_1_9 by simp

lemma numberedAddressKey_values:
  "numberedAddressKey (Suc 0) = js ''ADRESSORABOTI1''"
  "numberedAddressKey 2 = js ''ADRESSORABOTI2''"
  "numberedAddressKey 3 = js ''ADRESSORABOTI3''"
  "numberedAddressKey 4 = js ''ADRESSORABOTI4''"
  "numberedAddressKey 5 = js ''ADRESSORABOTI5''"
  "numberedAddressKey 6 = js ''ADRESSORABOTI6''"
  "numberedAddressKey 7 = js ''ADRESSORABOTI7''"
  "numberedAddressKey 8 = js ''ADRESSORABOTI8''"
  by (simp_all add: numberedAddressKey_def decimal.simps js_def)

text \<open>
  C7. For a row whose un-numbered address block and numbered blocks 1, 3, 4, 6, 7 and 8
  are absent (or empty) and whose blocks 2 and 5 are present with non-empty block strings
  \<open>a2\<close> and \<open>a5\<close>: the address of the row is \<open>a2\<close>, then \<^verbatim>\<open>; \<close>, then \<open>a5\<close>, and each block
  string is the present ones of the block's region, city, street and house components,
  in that order, joined by \<^verbatim>\<open>, \<close>.
\<close>

theorem combinedAddress_blocks_2_5:
  assumes "\<not> truthy (getProp row (js ''ADRESSORABOTI''))"
    and "\<forall>i\<in>{1, 3, 4, 6, 7, 8}. \<not> truthy (getProp row (numberedAddressKey i))"
    and "truthy (getProp row (numberedAddressKey 2))"
    and "truthy (getProp row (numberedAddressKey 5))"
    and "extractAddress (getProp row (numberedAddressKey 2)) = Some a2" and "a2 \<noteq> []"
    and "extractAddress (getProp row (numberedAddressKey 5)) = Some a5" and "a5 \<noteq> []"
  shows "combinedAddress row = a2 @ js ''; '' @ a5 \<and>
         a2 = joinWith (js '', '') (map toStrOpt (filter truthy
                [getAddressComponent (getProp row (numberedAddressKey 2)) (js ''OBLAST''),
                 getAddressComponent (getProp row (numberedAddressKey 2)) (js ''GOROD''),
                 getAddressComponent (getProp row (numberedAddressKey 2)) (js ''ULICA''),
                 getAddressComponent (getProp row (numberedAddressKey 2)) (js ''DOM'')])) \<and>
         a5 = joinWith (js '', '') (map toStrOpt (filter truthy
                [getAddressComponent (getProp row (numberedAddressKey 5)) (js ''OBLAST''),
                 getAddressComponent (getProp row (numberedAddressKey 5)) (js ''GOROD''),
                 getAddressComponent (getProp row (numberedAddressKey 5)) (js ''ULICA''),
                 getAddressComponent (getProp row (numberedAddressKey 5)) (js ''DOM'')]))"
proof -
  have "combinedAddress row = a2 @ js ''; '' @ a5"
    using assms(5-8) addresses_blocks_2_5 [OF assms(1-4)]
    by (simp add: combinedAddress_def truthy_col_def or_else_def)
  moreover have "a2 = joinWith (js '', '') (map toStrOpt (filter truthy
                [getAddressComponent (getProp row (numberedAddressKey 2)) (js ''OBLAST''),
                 getAddressComponent (getProp row (numberedAddressKey 2)) (js ''GOROD''),
                 getAddressComponent (getProp row (numberedAddressKey 2)) (js ''ULICA''),
                 getAddressComponent (getProp row (numberedAddressKey 2)) (js ''DOM'')]))"
    using assms(3,5) unfolding extractAddress_def Let_def by simp
  moreover have "a5 = joinWith (js '', '') (map toStrOpt (filter truthy
                [getAddressComponent (getProp row (numberedAddressKey 5)) (js ''OBLAST''),
                 getAddressComponent (getProp row (numberedAddressKey 5)) (js ''GOROD''),
                 getAddressComponent (getProp row (numberedAddressKey 5)) (js ''ULICA''),
                 getAddressComponent (getProp row (numberedAddressKey 5)) (js ''DOM'')]))"
    using assms(4,7) unfolding extractAddress_def Let_def by simp
  ultimately show ?thesis by blast
qed

theorem combinedAddress_blocks_2_5_witness:
  "combinedAddress example_row = js ''A, B; C, 7''"
proof -
  have e2: "extractAddress (getProp example_row (numberedAddressKey 2)) = Some (js ''A, B'')"
    and e5: "extractAddress (getProp example_row (numberedAddressKey 5)) = Some (js ''C, 7'')"
    by (simp_all add: numberedAddressKey_values example_row_def getProp_def extractAddress_def
        getAddressComponent_def truthy_def endsWith_def toStrOpt_def js_def)
  have n: "js ''A, B'' \<noteq> []" "js ''C, 7'' \<noteq> []" by (simp_all add: js_def)
  have a: "\<not> truthy (getProp example_row (js ''ADRESSORABOTI''))"
    and b: "\<forall>i\<in>{1, 3, 4, 6, 7, 8}. \<not> truthy (getProp example_row (numberedAddressKey i))"
    and c: "truthy (getProp example_row (numberedAddressKey 2))"
    and d: "truthy (getProp example_row (numberedAddressKey 5))"
    by (simp_all add: numberedAddressKey_values example_row_def getProp_def truthy_def js_def)
  from combinedAddress_blocks_2_5 [OF a b c d e2 n(1) e5 n(2)]
  show ?thesis by (simp add: js_def)
qed

section \<open>Totality of the field extractors\<close>

text \<open>
  C4 fails for \<^verbatim>\<open>extractSchedule\<close> of the upload route with import rules. A schedule block
  whose \<^verbatim>\<open>GAFIK\<close> element has child elements (the new schema) is an object without text;
  the loop takes the object itself as \<^verbatim>\<open>content\<close> and calls \<^verbatim>\<open>content.includes\<close>, which an
  object does not have: a TypeError is thrown.
\<close>

theorem extractSchedule_throws_on_nested_object:
  "extractSchedule (Some nested_schedule) = Inl TypeError"
  by (simp add: extractSchedule_def nested_schedule_def getProp_def truthy_def scheduleStep_def
      includesSlash_def js_def)

text \<open>The result is not the absent value that an unrecognized shape should give.\<close>

theorem extractSchedule_nested_object_not_absent:
  "extractSchedule (Some nested_schedule) \<noteq> Inr None"
  using extractSchedule_throws_on_nested_object by simp

text \<open>
  The same block goes through the extractor of \<^verbatim>\<open>utils/importJobsUtil.js\<close>, which reads the
  named parts of the object.
\<close>

lemma extractSchedule_util_nested_object:
  "extractSchedule_util (Some nested_schedule) = Some (Str (lit_smena @ js ''1''))"
  by (simp add: extractSchedule_util_def nested_schedule_def getProp_def truthy_def
      scheduleComponent_def toStrOpt_def lit_smena_def js_def)

section \<open>The calendar of the runtime\<close>



lemma yearOfEra_bounds:
  assumes "0 \<le> doe" and "doe < 146097" and "yearOfEra doe = (yoe, doy)"
  shows "0 \<le> yoe \<and> yoe \<le> 399 \<and> 0 \<le> doy \<and> doy \<le> 365"
proof -
  define c where "c = min 3 (doe div 36524)"
  define doc where "doc = doe - 36524 * c"
  define q where "q = doc div 1461"
  define doq where "doq = doc mod 1461"
  define yq where "yq = min 3 (doq div 365)"
  have res: "yoe = 100 * c + 4 * q + yq" "doy = doq - 365 * yq"
    using assms(3) unfolding yearOfEra_def Let_def c_def doc_def q_def doq_def yq_def by simp_all
  have c: "0 \<le> c \<and> c \<le> 3" using assms(1) unfolding c_def min_def by (simp; linarith)
  have doc: "0 \<le> doc \<and> doc \<le> 36524"
    using assms(1,2) unfolding doc_def c_def min_def by (simp; linarith)
  have doq: "0 \<le> doq \<and> doq < 1461" unfolding doq_def by simp
  have doc_eq: "doc = 1461 * q + doq" unfolding q_def doq_def by simp
  have q: "0 \<le> q \<and> q \<le> 24" using doc doq doc_eq by linarith
  have yq: "0 \<le> yq \<and> yq \<le> 3" using doq unfolding yq_def min_def by (simp; linarith)
  have doy: "0 \<le> doq - 365 * yq \<and> doq - 365 * yq \<le> 365"
    using doq unfolding yq_def min_def by (simp; linarith)
  show ?thesis using res c q yq doy by linarith
qed


lemma yearOfEra_last_days:
  assumes "146037 \<le> doe" and "doe < 146097" and "yearOfEra doe = (yoe, doy)"
  shows "yoe = 399 \<and> 306 \<le> doy"
proof -
  define c where "c = min 3 (doe div 36524)"
  define doc where "doc = doe - 36524 * c"
  define q where "q = doc div 1461"
  define doq where "doq = doc mod 1461"
  define yq where "yq = min 3 (doq div 365)"
  have res: "yoe = 100 * c + 4 * q + yq" "doy = doq - 365 * yq"
    using assms(3) unfolding yearOfEra_def Let_def c_def doc_def q_def doq_def yq_def by simp_all
  have c: "c = 3" using assms(1) unfolding c_def min_def by (simp; linarith)
  have doc: "36465 \<le> doc \<and> doc \<le> 36524" using assms(1,2) c unfolding doc_def by linarith
  have q: "q = 24" using doc unfolding q_def by linarith
  have doc_eq: "doc = 1461 * q + doq" unfolding q_def doq_def by simp
  have doq: "doq = doc - 35064" using doc_eq q by linarith
  have yq: "yq = 3" using doc doq unfolding yq_def min_def by (simp; linarith)
  show ?thesis using res c q yq doq doc by linarith
qed

lemma yearOfEra_before_last_days:
  assumes "0 \<le> doe" and "doe \<le> 146036" and "yearOfEra doe = (yoe, doy)" and "yoe = 399"
  shows "doy \<le> 305"
proof -
  define c where "c = min 3 (doe div 36524)"
  define doc where "doc = doe - 36524 * c"
  define q where "q = doc div 1461"
  define doq where "doq = doc mod 1461"
  define yq where "yq = min 3 (doq div 365)"
  have res: "yoe = 100 * c + 4 * q + yq" "doy = doq - 365 * yq"
    using assms(3) unfolding yearOfEra_def Let_def c_def doc_def q_def doq_def yq_def by simp_all
  have c: "0 \<le> c \<and> c \<le> 3" using assms(1) unfolding c_def min_def by (simp; linarith)
  have doc: "0 \<le> doc \<and> doc \<le> 36524"
    using assms(1,2) unfolding doc_def c_def min_def by (simp; linarith)
  have doq: "0 \<le> doq \<and> doq < 1461" unfolding doq_def by simp
  have doc_eq: "doc = 1461 * q + doq" unfolding q_def doq_def by simp
  have q: "0 \<le> q \<and> q \<le> 24" using doc doq doc_eq by linarith
  have yq: "0 \<le> yq \<and> yq \<le> 3" using doq unfolding yq_def min_def by (simp; linarith)
  from res(1) assms(4) c q yq have v: "c = 3" "q = 24" "yq = 3" by linarith+
  have "doe = 36524 * c + doc" unfolding doc_def by simp
  then have "doq \<le> 1400" using v doc_eq assms(2) by linarith
  then show ?thesis using res(2) v by linarith
qed

lemma monthDay_bounds:
  assumes "0 \<le> doy" and "doy \<le> 365" and "monthDay doy = (m, d)"
  shows "1 \<le> m \<and> m \<le> 12 \<and> 1 \<le> d \<and> d \<le> 31 \<and> (m \<le> 2 \<longleftrightarrow> 306 \<le> doy)"
proof -
  define mp where "mp = (5 * doy + 2) div 153"
  have res: "m = (if mp < 10 then mp + 3 else mp - 9)" "d = doy - (153 * mp + 2) div 5 + 1"
    using assms(3) unfolding monthDay_def Let_def mp_def by simp_all
  have mp: "0 \<le> mp \<and> mp \<le> 11" using assms(1,2) unfolding mp_def by linarith
  have mp10: "mp < 10 \<longleftrightarrow> doy < 306" unfolding mp_def by linarith
  have d: "1 \<le> d \<and> d \<le> 31" unfolding res(2) mp_def by linarith
  show ?thesis using res(1) mp mp10 d by auto
qed



lemma isDigit_digitChar: "isDigit (digitChar k)"
proof -
  have "k mod 10 < 10" by simp
  then have "48 + k mod 10 < 58" by simp
  then have u: "unat (of_nat (48 + k mod 10) :: 16 word) = 48 + k mod 10"
    by (simp only: unat_of_nat) simp
  show ?thesis
    unfolding isDigit_def digitChar_def
    by (simp only: word_le_nat_alt u) simp
qed

lemma unat_digitChar: "unat (digitChar k) = 48 + k mod 10"
proof -
  have "k mod 10 < 10" by simp
  then have "48 + k mod 10 < 58" by simp
  then show ?thesis unfolding digitChar_def by (simp only: unat_of_nat) simp
qed

lemma isDigit_not_special:
  "isDigit c \<Longrightarrow> c \<noteq> 0x2D \<and> c \<noteq> 0x54 \<and> c \<noteq> 0x2B \<and> c \<noteq> 0x2E"
  by (auto simp: isDigit_def)

lemma splitOn_first:
  "sep \<notin> set xs \<Longrightarrow> splitOn sep (xs @ sep # ys) = xs # splitOn sep ys"
  by (induction xs) auto

lemma civil_from_days_ranges:
  assumes "civil_from_days days = (y, m, d)"
  shows "1 \<le> m \<and> m \<le> 12 \<and> 1 \<le> d \<and> d \<le> 31 \<and>
         (- 719528 \<le> days \<and> days \<le> 2932896 \<longrightarrow> 0 \<le> y \<and> y \<le> 9999)"
proof -
  define z where "z = days + 719468"
  define era where "era = z div 146097"
  define doe where "doe = z mod 146097"
  obtain yoe doy where yd: "yearOfEra doe = (yoe, doy)" by (cases "yearOfEra doe")
  obtain m' d' where md: "monthDay doy = (m', d')" by (cases "monthDay doy")
  have res: "y = (if m' \<le> 2 then 400 * era + yoe + 1 else 400 * era + yoe)" "m = m'" "d = d'"
    using assms yd md unfolding civil_from_days_def Let_def z_def [symmetric] doe_def [symmetric]
      era_def [symmetric]
    by (simp_all split: if_splits)
  have doe: "0 \<le> doe" "doe < 146097" unfolding doe_def by simp_all
  have z_eq: "z = 146097 * era + doe" unfolding era_def doe_def by simp
  note yb = yearOfEra_bounds [OF doe yd]
  then have "0 \<le> doy" "doy \<le> 365" by simp_all
  note mb = monthDay_bounds [OF this md]
  have range: "0 \<le> y \<and> y \<le> 9999" if lo: "- 719528 \<le> days" and hi: "days \<le> 2932896"
  proof -
    have zr: "- 60 \<le> z" "z \<le> 3652364" using lo hi unfolding z_def by simp_all
    have era: "- 1 \<le> era" "era \<le> 24" using zr z_eq doe by linarith+
    consider "era = - 1" | "0 \<le> era \<and> era \<le> 23" | "era = 24" using era by linarith
    then show ?thesis
    proof cases
      case 1
      then have "146037 \<le> doe" using zr z_eq by linarith
      from yearOfEra_last_days [OF this doe(2) yd] have "yoe = 399" "306 \<le> doy" by simp_all
      then have "m' \<le> 2" using mb by simp
      then show ?thesis using res(1) 1 \<open>yoe = 399\<close> by simp
    next
      case 2
      then show ?thesis using res(1) yb by (auto split: if_splits)
    next
      case 3
      then have le: "doe \<le> 146036" using zr z_eq by linarith
      show ?thesis
      proof (cases "yoe = 399")
        case True
        from yearOfEra_before_last_days [OF doe(1) le yd True] have "doy \<le> 305" .
        then have "\<not> m' \<le> 2" using mb by simp
        then show ?thesis using res(1) 3 True by simp
      next
        case False
        then have "yoe \<le> 398" using yb by linarith
        then show ?thesis using res(1) 3 yb by (auto split: if_splits)
      qed
    qed
  qed
  show ?thesis using res(2,3) mb range by simp
qed


section \<open>The dates of a formatted row\<close>


lemma parseDigits_pad2: "n < 100 \<Longrightarrow> parseDigits (pad2 n) = n"
  by (simp add: parseDigits_def pad2_def unat_digitChar)

lemma no_T_in_datePart: "0x54 \<notin> set (datePart y m d)"
  using isDigit_not_special [OF isDigit_digitChar]
  by (auto simp: datePart_def yearString_def pad4_def pad6_def pad2_def js_def)

lemma toISOString_Inr:
  assumes "toISOString tv = Inr s"
  shows "\<bar>tv\<bar> \<le> 8640000000000000 \<and>
         (\<exists>y m d rest. civil_from_days (tv div 86400000) = (y, m, d) \<and> s = datePart y m d @ 0x54 # rest)"
proof -
  obtain y m d where c: "civil_from_days (tv div 86400000) = (y, m, d)"
    by (cases "civil_from_days (tv div 86400000)")
  show ?thesis
    using assms c unfolding toISOString_def Let_def
    by (auto simp: js_def split: if_splits)
qed

lemma toISOString_Inl:
  "toISOString tv = Inl e \<longleftrightarrow> e = RangeError \<and> \<bar>tv\<bar> > 8640000000000000"
  unfolding toISOString_def Let_def by (auto split: prod.splits)

lemma toISODate_cases:
  "toISODate v =
     (case v of
        None \<Rightarrow> Inr None
      | Some t \<Rightarrow>
          if \<not> truthy (Some t) then Inr None
          else (case parseInt10 (toStr t) of
                  None \<Rightarrow> Inr None
                | Some ts \<Rightarrow>
                    if \<bar>ts * 1000\<bar> > 8640000000000000 then Inl RangeError
                    else (case civil_from_days (ts * 1000 div 86400000) of
                            (y, m, d) \<Rightarrow> Inr (Some (datePart y m d)))))"
proof (cases v)
  case None
  then show ?thesis by (simp add: toISODate_def)
next
  case (Some t)
  show ?thesis
  proof (cases "parseInt10 (toStr t)")
    case None
    then show ?thesis using Some by (simp add: toISODate_def)
  next
    case ts: (Some ts)
    show ?thesis
    proof (cases "toISOString (ts * 1000)")
      case (Inl e)
      then show ?thesis using Some ts toISOString_Inl [of "ts * 1000" e]
        by (auto simp: toISODate_def)
    next
      case (Inr s)
      from toISOString_Inr [OF Inr] obtain y m d rest
        where r: "\<bar>ts * 1000\<bar> \<le> 8640000000000000"
          "civil_from_days (ts * 1000 div 86400000) = (y, m, d)" "s = datePart y m d @ 0x54 # rest"
        by blast
      have "splitOn 0x54 s = datePart y m d # splitOn 0x54 rest"
        unfolding r(3) by (rule splitOn_first) (rule no_T_in_datePart)
      then show ?thesis using Some ts Inr r(1,2) by (simp add: toISODate_def)
    qed
  qed
qed

lemma isoCalendarDate_datePart:
  assumes "0 \<le> y" "y \<le> 9999" "1 \<le> m" "m \<le> 12" "1 \<le> d" "d \<le> 31"
  shows "isoCalendarDate (datePart y m d)"
proof -
  have s: "datePart y m d = pad4 (nat y) @ js ''-'' @ pad2 (nat m) @ js ''-'' @ pad2 (nat d)"
    using assms(1,2) by (simp add: datePart_def yearString_def)
  have shaped: "isoDateShaped (datePart y m d)"
    unfolding s by (simp add: isoDateShaped_def pad4_def pad2_def js_def isDigit_digitChar)
  have mm: "take 2 (drop 5 (datePart y m d)) = pad2 (nat m)"
    and dd: "drop 8 (datePart y m d) = pad2 (nat d)"
    unfolding s by (simp_all add: pad4_def pad2_def js_def)
  have "nat m < 100" "nat d < 100" using assms by linarith+
  then show ?thesis
    using shaped assms unfolding isoCalendarDate_def mm dd
    by (simp add: parseDigits_pad2) linarith
qed

lemma toISODate_in_range:
  assumes "truthy (Some t)" and "parseInt10 (toStr t) = Some ts"
    and "- 62167219200 \<le> ts" and "ts \<le> 253402300799"
  shows "\<exists>s. toISODate (Some t) = Inr (Some s) \<and> isoCalendarDate s"
proof -
  obtain y m d where c: "civil_from_days (ts * 1000 div 86400000) = (y, m, d)"
    by (cases "civil_from_days (ts * 1000 div 86400000)")
  have days: "- 719528 \<le> ts * 1000 div 86400000" "ts * 1000 div 86400000 \<le> 2932896"
    using assms(3,4) by linarith+
  from civil_from_days_ranges [OF c] days
  have "isoCalendarDate (datePart y m d)" by (intro isoCalendarDate_datePart) simp_all
  moreover have "\<not> \<bar>ts * 1000\<bar> > 8640000000000000" using assms(3,4) by linarith
  ultimately show ?thesis using assms(1,2) c by (simp add: toISODate_cases)
qed



lemma isoDateShaped_nth:
  "isoDateShaped t \<longleftrightarrow>
     length t = 10 \<and> t ! 4 = 0x2D \<and> t ! 7 = 0x2D \<and> (\<forall>i<10. i \<noteq> 4 \<and> i \<noteq> 7 \<longrightarrow> isDigit (t ! i))"
proof (cases "length t = 10")
  case False
  then show ?thesis by (simp add: isoDateShaped_def)
next
  case True
  then obtain a b c d e f g h i j where t: "t = [a, b, c, d, e, f, g, h, i, j]"
    by (auto simp: length_Suc_conv numeral_eq_Suc)
  have all: "(\<forall>k<10. P k) \<longleftrightarrow> P 0 \<and> P 1 \<and> P 2 \<and> P 3 \<and> P 4 \<and> P 5 \<and> P 6 \<and> P 7 \<and> P 8 \<and> P (9::nat)" for P
  proof
    assume "\<forall>k<10. P k" then show "P 0 \<and> P 1 \<and> P 2 \<and> P 3 \<and> P 4 \<and> P 5 \<and> P 6 \<and> P 7 \<and> P 8 \<and> P 9" by simp
  next
    assume h: "P 0 \<and> P 1 \<and> P 2 \<and> P 3 \<and> P 4 \<and> P 5 \<and> P 6 \<and> P 7 \<and> P 8 \<and> P 9"
    show "\<forall>k<10. P k"
    proof (intro allI impI)
      fix k :: nat assume "k < 10"
      then consider "k = 0" | "k = 1" | "k = 2" | "k = 3" | "k = 4" | "k = 5" | "k = 6" | "k = 7" | "k = 8" | "k = 9"
        by atomize_elim arith
      then show "P k" using h by cases simp_all
    qed
  qed
  show ?thesis unfolding t by (simp add: isoDateShaped_def all) blast
qed

lemma not_isDigit_hyphen: "\<not> isDigit 0x2D"
  by (simp add: isDigit_def)

lemma shaped_recomposed:
  "isoDateShaped (fy @ js ''-'' @ mo @ js ''-'' @ da) \<longleftrightarrow> isDigits 4 fy \<and> isDigits 2 mo \<and> isDigits 2 da"
proof
  assume r: "isDigits 4 fy \<and> isDigits 2 mo \<and> isDigits 2 da"
  then obtain a b c d where fy: "fy = [a, b, c, d]"
    by (auto simp: isDigits_def length_Suc_conv numeral_eq_Suc)
  from r obtain e f where mo: "mo = [e, f]"
    by (auto simp: isDigits_def length_Suc_conv numeral_eq_Suc)
  from r obtain g h where da: "da = [g, h]"
    by (auto simp: isDigits_def length_Suc_conv numeral_eq_Suc)
  show "isoDateShaped (fy @ js ''-'' @ mo @ js ''-'' @ da)"
    using r unfolding fy mo da by (simp add: isoDateShaped_def isDigits_def js_def)
next
  let ?s = "fy @ js ''-'' @ mo @ js ''-'' @ da"
  assume "isoDateShaped ?s"
  then have len: "length ?s = 10" and dig: "\<And>i. i < 10 \<Longrightarrow> i \<noteq> 4 \<Longrightarrow> i \<noteq> 7 \<Longrightarrow> isDigit (?s ! i)"
    by (simp_all add: isoDateShaped_nth)
  have l: "length fy + length mo + length da = 8" using len by (simp add: js_def)
  have h1: "?s ! length fy = 0x2D" by (simp add: js_def nth_append)
  have h2: "?s ! (length fy + 1 + length mo) = 0x2D" by (simp add: js_def nth_append)
  have p1: "length fy = 4 \<or> length fy = 7"
    using dig [of "length fy"] h1 l not_isDigit_hyphen by (cases "length fy = 4 \<or> length fy = 7") auto
  have p2: "length fy + 1 + length mo = 4 \<or> length fy + 1 + length mo = 7"
    using dig [of "length fy + 1 + length mo"] h2 l not_isDigit_hyphen
    by (cases "length fy + 1 + length mo = 4 \<or> length fy + 1 + length mo = 7") auto
  from p1 p2 l have lens: "length fy = 4" "length mo = 2" "length da = 2" by linarith+
  have "list_all isDigit fy"
    unfolding list_all_length
  proof (intro allI impI)
    fix i assume "i < length fy"
    then have "i < 4" using lens by simp
    with dig [of i] show "isDigit (fy ! i)" using lens by (simp add: nth_append)
  qed
  moreover have "list_all isDigit mo"
    unfolding list_all_length
  proof (intro allI impI)
    fix i assume "i < length mo"
    then have i: "i < 2" using lens by simp
    have "?s ! (5 + i) = mo ! i" using lens i by (simp add: nth_append js_def)
    with dig [of "5 + i"] i show "isDigit (mo ! i)" by simp
  qed
  moreover have "list_all isDigit da"
    unfolding list_all_length
  proof (intro allI impI)
    fix i assume "i < length da"
    then have i: "i < 2" using lens by simp
    have "?s ! (8 + i) = da ! i" using lens i by (simp add: nth_append js_def)
    with dig [of "8 + i"] i show "isDigit (da ! i)" by simp
  qed
  ultimately show "isDigits 4 fy \<and> isDigits 2 mo \<and> isDigits 2 da"
    using lens by (simp add: isDigits_def)
qed

lemma fullYear_digits:
  "isDigits 4 (if length year = 2 then js ''20'' @ year else year) \<longleftrightarrow> isDigits 2 year \<or> isDigits 4 year"
  by (auto simp: isDigits_def js_def isDigit_def)

lemma parseDate_cases:
  "parseDate v =
     (case v of
        None \<Rightarrow> Inr None
      | Some (Str t) \<Rightarrow>
          if t = [] then Inr None
          else (case splitOn 0x2E t of
                  [day, month, year] \<Rightarrow>
                    Inr (Some ((if length year = 2 then js ''20'' @ year else year) @ js ''-'' @
                               month @ js ''-'' @ day))
                | _ \<Rightarrow> Inr None)
      | Some _ \<Rightarrow> Inl TypeError)"
  by (simp add: parseDate_def recomposed_def truthy_def Let_def split: option.splits jsval.splits list.splits)



lemma isoExpandedDate_datePart:
  assumes "\<not> (0 \<le> y \<and> y \<le> 9999)" "1 \<le> m" "m \<le> 12" "1 \<le> d" "d \<le> 31"
  shows "isoExpandedDate (datePart y m d)"
proof -
  obtain sign where s: "datePart y m d = sign # pad6 (nat \<bar>y\<bar>) @ js ''-'' @ pad2 (nat m) @ js ''-'' @ pad2 (nat d)"
    and sign: "sign = 0x2B \<or> sign = 0x2D"
    using assms(1) by (auto simp: datePart_def yearString_def)
  have mm: "take 2 (drop 8 (datePart y m d)) = pad2 (nat m)"
    and dd: "drop 11 (datePart y m d) = pad2 (nat d)"
    unfolding s by (simp_all add: pad6_def pad2_def js_def)
  have shape: "length (datePart y m d) = 13" "datePart y m d ! 0 = sign"
    "list_all isDigit (take 6 (drop 1 (datePart y m d)))" "datePart y m d ! 7 = 0x2D"
    "datePart y m d ! 10 = 0x2D"
    unfolding s by (simp_all add: pad6_def pad2_def js_def isDigit_digitChar)
  have digs: "list_all isDigit (pad2 (nat m))" "list_all isDigit (pad2 (nat d))"
    by (simp_all add: pad2_def isDigit_digitChar)
  have "nat m < 100" "nat d < 100" using assms by linarith+
  then show ?thesis
    using shape sign digs assms unfolding isoExpandedDate_def mm dd
    by (simp add: parseDigits_pad2) linarith
qed

lemma toISODate_Some_wellformed:
  assumes "toISODate v = Inr (Some s)"
  shows "isoCalendarDate s \<or> isoExpandedDate s"
proof -
  from assms obtain t ts where v: "v = Some t" and ts: "parseInt10 (toStr t) = Some ts"
    by (auto simp: toISODate_cases split: option.splits if_splits)
  obtain y m d where c: "civil_from_days (ts * 1000 div 86400000) = (y, m, d)"
    by (cases "civil_from_days (ts * 1000 div 86400000)")
  from assms v ts c have s: "s = datePart y m d"
    by (auto simp: toISODate_cases split: if_splits)
  from civil_from_days_ranges [OF c] have r: "1 \<le> m" "m \<le> 12" "1 \<le> d" "d \<le> 31" by simp_all
  show ?thesis
  proof (cases "0 \<le> y \<and> y \<le> 9999")
    case True
    then have "isoCalendarDate (datePart y m d)" using r by (intro isoCalendarDate_datePart) simp_all
    then show ?thesis using s by simp
  next
    case False
    then have "isoExpandedDate (datePart y m d)" using r by (intro isoExpandedDate_datePart) simp_all
    then show ?thesis using s by simp
  qed
qed

lemma parseDate_three:
  "splitOn 0x2E t = [day, month, year] \<Longrightarrow>
     parseDate (Some (Str t)) = Inr (Some (recomposed day month year))"
  by (cases t) (simp_all add: parseDate_def truthy_def)

lemma parseDate_not_three:
  "length (splitOn 0x2E t) \<noteq> 3 \<Longrightarrow> parseDate (Some (Str t)) = Inr None"
  by (auto simp: parseDate_def truthy_def split: list.splits)

lemma isoDateShaped_recomposed:
  "isoDateShaped (recomposed day month year) \<longleftrightarrow>
     isDigits 2 day \<and> isDigits 2 month \<and> (isDigits 2 year \<or> isDigits 4 year)"
  unfolding recomposed_def shaped_recomposed fullYear_digits by blast

lemma date_field_wellformed:
  assumes "toISODate v = Inr p" and "fld = map_option Str p"
  shows "fld = None \<or> (\<exists>s. fld = Some (Str s) \<and> (isoCalendarDate s \<or> isoExpandedDate s))"
  using assms toISODate_Some_wellformed [of v] by (cases p) auto

lemma formatRow_dates_elim:
  assumes "formatRow row = Inr j"
  obtains p d a where
    "toISODate (getProp row (js ''PUBLON'')) = Inr p" "field j (js ''publication_date'') = map_option Str p"
    "toISODate (getProp row (js ''PUBLOFF'')) = Inr d" "field j (js ''depub_date'') = map_option Str d"
    "parseDate (getProp row (js ''SCHETDATA'')) = Inr a" "field j (js ''account_date'') = map_option Str a"
  using assms unfolding formatRow_def
  by (auto split: sum.splits simp: field_def js_def)


text \<open>
  C3, as the code behaves. For a row that the normalizer formats: \<^verbatim>\<open>publication_date\<close> and
  \<^verbatim>\<open>depub_date\<close> are absent or a calendar date in ISO form (with a year outside 0000 to
  9999 in the expanded form); \<^verbatim>\<open>account_date\<close> is absent when \<^verbatim>\<open>SCHETDATA\<close> is absent or is a
  string that does not split at its dots into exactly three parts, and otherwise is the
  three parts put together as year, month and day, which has the shape of an ISO date
  exactly when day and month are two digits each and the year is two or four digits.
\<close>

theorem formatRow_dates:
  assumes "formatRow row = Inr j"
  shows "(field j (js ''publication_date'') = None \<or>
          (\<exists>s. field j (js ''publication_date'') = Some (Str s) \<and> (isoCalendarDate s \<or> isoExpandedDate s))) \<and>
         (field j (js ''depub_date'') = None \<or>
          (\<exists>s. field j (js ''depub_date'') = Some (Str s) \<and> (isoCalendarDate s \<or> isoExpandedDate s))) \<and>
         (getProp row (js ''SCHETDATA'') = None \<longrightarrow> field j (js ''account_date'') = None) \<and>
         (\<forall>t. getProp row (js ''SCHETDATA'') = Some (Str t) \<longrightarrow>
            (\<forall>day month year. splitOn 0x2E t = [day, month, year] \<longrightarrow>
               field j (js ''account_date'') = Some (Str (recomposed day month year)) \<and>
               (isoDateShaped (recomposed day month year) \<longleftrightarrow>
                  isDigits 2 day \<and> isDigits 2 month \<and> (isDigits 2 year \<or> isDigits 4 year))) \<and>
            (length (splitOn 0x2E t) \<noteq> 3 \<longrightarrow> field j (js ''account_date'') = None))"
proof -
  from assms obtain p d a where
    p: "toISODate (getProp row (js ''PUBLON'')) = Inr p" "field j (js ''publication_date'') = map_option Str p"
    and d: "toISODate (getProp row (js ''PUBLOFF'')) = Inr d" "field j (js ''depub_date'') = map_option Str d"
    and a: "parseDate (getProp row (js ''SCHETDATA'')) = Inr a" "field j (js ''account_date'') = map_option Str a"
    by (rule formatRow_dates_elim)
  show ?thesis
  proof (intro conjI allI impI)
    show "field j (js ''publication_date'') = None \<or>
          (\<exists>s. field j (js ''publication_date'') = Some (Str s) \<and> (isoCalendarDate s \<or> isoExpandedDate s))"
      using p by (rule date_field_wellformed)
    show "field j (js ''depub_date'') = None \<or>
          (\<exists>s. field j (js ''depub_date'') = Some (Str s) \<and> (isoCalendarDate s \<or> isoExpandedDate s))"
      using d by (rule date_field_wellformed)
    show "field j (js ''account_date'') = None" if "getProp row (js ''SCHETDATA'') = None"
      using a that by (simp add: parseDate_def truthy_def)
    show "field j (js ''account_date'') = Some (Str (recomposed day month year))"
      if "getProp row (js ''SCHETDATA'') = Some (Str t)" "splitOn 0x2E t = [day, month, year]"
      for t day month year
      using a that parseDate_three [OF that(2)] by simp
    show "isoDateShaped (recomposed day month year) \<longleftrightarrow>
            isDigits 2 day \<and> isDigits 2 month \<and> (isDigits 2 year \<or> isDigits 4 year)"
      for day month year
      by (rule isoDateShaped_recomposed)
    show "field j (js ''account_date'') = None"
      if "getProp row (js ''SCHETDATA'') = Some (Str t)" "length (splitOn 0x2E t) \<noteq> 3" for t
      using a that parseDate_not_three [OF that(2)] by simp
  qed
qed

lemma formatRow_dated_row: "formatRow dated_row = Inr
  [(js ''job_title'', Some (Str (js ''Driver''))),
   (js ''publication_date'', Some (Str (js ''2023-11-14''))),
   (js ''depub_date'', None),
   (js ''account_number'', None),
   (js ''account_date'', Some (Str (js ''2024-03-05''))),
   (js ''company_inn'', None),
   (js ''company_name'', None),
   (js ''phone'', None),
   (js ''email'', None),
   (js ''address'', Some (Str [])),
   (js ''conditions'', None),
   (js ''responsibilities'', None),
   (js ''requirements'', None),
   (js ''schedule'', None),
   (js ''salary'', None),
   (js ''contact_person'', None),
   (js ''extra_info'', Some (Str []))]"
  by code_simp

text \<open>
  The row with \<^verbatim>\<open>PUBLON\<close> 1700000000 and \<^verbatim>\<open>SCHETDATA\<close> 05.03.24: both dates are well formed.
\<close>

theorem formatRow_dates_witness:
  "fieldOf (formatRow dated_row) (js ''publication_date'') = Inr (Some (Str (js ''2023-11-14''))) \<and>
   isoCalendarDate (js ''2023-11-14'') \<and>
   fieldOf (formatRow dated_row) (js ''depub_date'') = Inr None \<and>
   fieldOf (formatRow dated_row) (js ''account_date'') = Inr (Some (Str (js ''2024-03-05''))) \<and>
   isoDateShaped (js ''2024-03-05'')"
proof -
  have f: "fieldOf (formatRow dated_row) (js ''publication_date'') = Inr (Some (Str (js ''2023-11-14'')))"
    "fieldOf (formatRow dated_row) (js ''depub_date'') = Inr None"
    "fieldOf (formatRow dated_row) (js ''account_date'') = Inr (Some (Str (js ''2024-03-05'')))"
    by code_simp+
  have g: "getProp dated_row (js ''SCHETDATA'') = Some (Str (js ''05.03.24''))" by code_simp
  have sp: "splitOn 0x2E (js ''05.03.24'') = [js ''05'', js ''03'', js ''24'']" by code_simp
  have rc: "recomposed (js ''05'') (js ''03'') (js ''24'') = js ''2024-03-05''" by code_simp
  have dg: "isDigits 2 (js ''05'') \<and> isDigits 2 (js ''03'') \<and> isDigits 2 (js ''24'')" by code_simp
  have ne: "\<not> isoExpandedDate (js ''2023-11-14'')" by code_simp
  have "case formatRow dated_row of Inl e \<Rightarrow> False | Inr j \<Rightarrow> True" by code_simp
  then obtain j where j: "formatRow dated_row = Inr j" by (cases "formatRow dated_row") simp_all
  have fj: "field j (js ''publication_date'') = Some (Str (js ''2023-11-14''))"
    using f(1) j by (simp add: fieldOf_def)
  note t = formatRow_dates [OF j]
  from t have "field j (js ''publication_date'') = None \<or>
          (\<exists>s. field j (js ''publication_date'') = Some (Str s) \<and> (isoCalendarDate s \<or> isoExpandedDate s))"
    by (rule conjunct1)
  with fj ne have 1: "isoCalendarDate (js ''2023-11-14'')" by auto
  from t have "\<forall>t. getProp dated_row (js ''SCHETDATA'') = Some (Str t) \<longrightarrow>
            (\<forall>day month year. splitOn 0x2E t = [day, month, year] \<longrightarrow>
               field j (js ''account_date'') = Some (Str (recomposed day month year)) \<and>
               (isoDateShaped (recomposed day month year) \<longleftrightarrow>
                  isDigits 2 day \<and> isDigits 2 month \<and> (isDigits 2 year \<or> isDigits 4 year))) \<and>
            (length (splitOn 0x2E t) \<noteq> 3 \<longrightarrow> field j (js ''account_date'') = None)"
    by (elim conjE)
  with g sp have "isoDateShaped (recomposed (js ''05'') (js ''03'') (js ''24''))
        \<longleftrightarrow> isDigits 2 (js ''05'') \<and> isDigits 2 (js ''03'') \<and> (isDigits 2 (js ''24'') \<or> isDigits 4 (js ''24''))"
    by blast
  with dg rc have 2: "isoDateShaped (js ''2024-03-05'')" by simp
  show ?thesis using f 1 2 by simp
qed

text \<open>
  Three dotted tokens that are no numbers, and a year of one digit, give strings that are
  no ISO dates.
\<close>

theorem formatRow_malformed_account_date:
  "fieldOf (formatRow undated_row) (js ''account_date'') = Inr (Some (Str (js ''c-b-a''))) \<and>
   \<not> isoDateShaped (js ''c-b-a'') \<and> \<not> isoExpandedDate (js ''c-b-a'') \<and>
   parseDate (Some (Str (js ''05.03.2''))) = Inr (Some (js ''2-03-05'')) \<and>
   \<not> isoDateShaped (js ''2-03-05'') \<and> \<not> isoExpandedDate (js ''2-03-05'')"
  by code_simp

section \<open>The rows the normalizer keeps\<close>






section \<open>The sanitizer applied twice\<close>

text \<open>
  C2 fails on the list-item branch, which returns the text between the tags as it stands:
  for a list item with bold text the sanitizer returns the inner markup, and sanitizing
  that result again strips it.
\<close>

theorem cleanHtmlToText_list_item_not_idempotent:
  "cleanHtmlToText (Some (Str (js ''<li><b>x</b></li>''))) = Inr (Some (js ''<b>x</b>'')) \<and>
   cleanAgain (cleanHtmlToText (Some (Str (js ''<li><b>x</b></li>'')))) = Inr (Some (js ''x''))"
  by code_simp

text \<open>Sanitizing the result again does not return it unchanged.\<close>

theorem cleanHtmlToText_list_item_changes_again:
  "cleanAgain (cleanHtmlToText (Some (Str (js ''<li><b>x</b></li>''))))
     \<noteq> cleanHtmlToText (Some (Str (js ''<li><b>x</b></li>'')))"
proof
  assume same: "cleanAgain (cleanHtmlToText (Some (Str (js ''<li><b>x</b></li>''))))
     = cleanHtmlToText (Some (Str (js ''<li><b>x</b></li>'')))"
  from cleanHtmlToText_list_item_not_idempotent
  have once: "cleanHtmlToText (Some (Str (js ''<li><b>x</b></li>''))) = Inr (Some (js ''<b>x</b>''))"
    and twice: "cleanAgain (cleanHtmlToText (Some (Str (js ''<li><b>x</b></li>'')))) = Inr (Some (js ''x''))"
    by (rule conjunct1, rule conjunct2)
  have "(Inr (Some (js ''x'')) :: js_error + jsstring option) = Inr (Some (js ''<b>x</b>''))"
    using twice [symmetric] same once by (rule trans [OF trans])
  then show False by (simp add: js_def)
qed

end
